theory Spec2Isabelle
  imports Complex_Main "HOL-Library.Word"
begin

section \<open>JavaScript strings\<close>

text \<open>
  A JavaScript string is a sequence of 16-bit code units. String literals of the
  source are written \<open>str ''...''\<close>.
\<close>

type_synonym jsstring = "16 word list"

definition str :: "string \<Rightarrow> jsstring" where
  "str cs = map (\<lambda>c. of_char c) cs"

text \<open>\<^verbatim>\<open>s.startsWith(p)\<close>\<close>

definition startsWith :: "jsstring \<Rightarrow> jsstring \<Rightarrow> bool" where
  "startsWith s p \<longleftrightarrow> take (length p) s = p"

text \<open>
  The code units that \<^verbatim>\<open>String.prototype.trim\<close> strips: ECMAScript WhiteSpace
  (TAB, VT, FF, ZWNBSP and the Unicode space separators) and LineTerminator
  (LF, CR, LS, PS).
\<close>

definition is_whitespace :: "16 word \<Rightarrow> bool" where
  "is_whitespace c \<longleftrightarrow>
     c = 0x0009 \<or> c = 0x000A \<or> c = 0x000B \<or> c = 0x000C \<or> c = 0x000D \<or>
     c = 0x0020 \<or> c = 0x00A0 \<or> c = 0x1680 \<or> (0x2000 \<le> c \<and> c \<le> 0x200A) \<or>
     c = 0x2028 \<or> c = 0x2029 \<or> c = 0x202F \<or> c = 0x205F \<or> c = 0x3000 \<or>
     c = 0xFEFF"

definition trim :: "jsstring \<Rightarrow> jsstring" where
  "trim s = rev (dropWhile is_whitespace (rev (dropWhile is_whitespace s)))"

section \<open>Data of the component\<close>

text \<open>A \<^verbatim>\<open>File\<close> object: its name, its MIME type and its size in bytes.\<close>

record jsfile =
  fname :: jsstring
  ftype :: jsstring
  fsize :: nat

text \<open>
  A JavaScript number: an IEEE double, given by its sign and the exact rational
  value of its magnitude.
\<close>

datatype jsnum = NaN | Infinity bool | Finite bool rat

text \<open>A value produced by \<^verbatim>\<open>response.json()\<close>. An object lists each key once.\<close>

datatype json =
    JNull
  | JBool bool
  | JNum jsnum
  | JStr jsstring
  | JArr "json list"
  | JObj "(jsstring \<times> json) list"

datatype severity = SevInfo | SevSuccess | SevError

record notif =
  message :: json
  ntype :: severity

datatype tab = EnrollTab | VerifyTab | UsersTab

datatype http_method = GET | POST | DELETE

datatype req_body = NoBody | JsonBody "(jsstring \<times> json) list" | FormDataBody jsfile

record request =
  rmethod :: http_method
  rurl :: jsstring
  rheaders :: "(jsstring \<times> jsstring) list"
  rbody :: req_body

datatype js_error = TypeError | URIError | SyntaxError | FetchFailed | InvalidChild

text \<open>
  The state of \<^verbatim>\<open>FacialAuthApp\<close>: one field per \<^verbatim>\<open>useState\<close> hook, followed by
  the effects of the component on its environment: the \<^verbatim>\<open>fetch\<close> calls made so
  far, the \<^verbatim>\<open>FileReader.readAsDataURL\<close> calls made so far, the lines written by
  \<^verbatim>\<open>console.error\<close>, the due times (in ms) of the pending \<^verbatim>\<open>setTimeout\<close>
  callbacks, and the clock.
\<close>

record app =
  activeTab :: tab
  isLoading :: bool
  notification :: "notif option"
  enrolledUsers :: json
  systemHealth :: json
  userId :: jsstring
  selectedFile :: "jsfile option"
  previewUrl :: "jsstring option"
  event :: jsstring
  token :: jsstring
  verifyImage :: "jsfile option"
  verifyPreview :: "jsstring option"
  verificationResult :: json
  useCamera :: bool
  requests :: "request list"
  reads :: "jsfile list"
  console :: "(jsstring \<times> js_error) list"
  timers :: "nat list"
  now :: nat

definition API_BASE_URL :: jsstring where
  "API_BASE_URL = str ''https://catfish-teaching-notably.ngrok-free.app/api''"

text \<open>The values of the \<^verbatim>\<open>useState\<close> hooks at mount, with no effect performed yet.\<close>

definition initial :: app where
  "initial = \<lparr> activeTab = EnrollTab, isLoading = False, notification = None,
     enrolledUsers = JArr [], systemHealth = JNull, userId = [],
     selectedFile = None, previewUrl = None, event = str ''login-event'',
     token = [], verifyImage = None, verifyPreview = None,
     verificationResult = JNull, useCamera = False,
     requests = [], reads = [], console = [], timers = [], now = 0 \<rparr>"

section \<open>Notification channel\<close>

text \<open>
  \<^verbatim>\<open>showNotification\<close> stores the notification and schedules a callback 5000 ms
  later. The callback is \<^verbatim>\<open>() => setNotification(null)\<close>; no timer is ever
  cancelled.
\<close>

definition showNotification :: "json \<Rightarrow> severity \<Rightarrow> app \<Rightarrow> app" where
  "showNotification m t s =
     s\<lparr> notification := Some \<lparr> message = m, ntype = t \<rparr>,
        timers := timers s @ [now s + 5000] \<rparr>"

text \<open>
  The clock advances by \<open>d\<close> ms: every pending callback that is due by then runs
  (each sets the notification to \<^verbatim>\<open>null\<close>) and leaves the timer list.
\<close>

definition advance :: "nat \<Rightarrow> app \<Rightarrow> app" where
  "advance d s =
     (let t = now s + d;
          s' = s\<lparr> timers := filter (\<lambda>due. t < due) (timers s), now := t \<rparr>
      in if filter (\<lambda>due. due \<le> t) (timers s) \<noteq> []
         then s'\<lparr> notification := None \<rparr> else s')"

section \<open>Media acquisition\<close>

text \<open>
  \<^verbatim>\<open>handleFileSelect(file, isVerify)\<close>. The argument is \<open>None\<close> when the caller
  passes \<^verbatim>\<open>undefined\<close> (an empty \<^verbatim>\<open>files\<close> list). On a valid file a
  \<^verbatim>\<open>FileReader\<close> is started; its \<^verbatim>\<open>onload\<close> callback is \<open>reader_onload\<close>.
\<close>

definition handleFileSelect :: "jsfile option \<Rightarrow> bool \<Rightarrow> app \<Rightarrow> app" where
  "handleFileSelect fo isVerify s =
     (case fo of
        None \<Rightarrow> s
      | Some f \<Rightarrow>
          if \<not> startsWith (ftype f) (str ''image/'')
          then showNotification (JStr (str ''Please select an image file'')) SevError s
          else if fsize f > 5 * 1024 * 1024
          then showNotification (JStr (str ''Image must be less than 5MB'')) SevError s
          else s\<lparr> reads := reads s @ [f] \<rparr>)"

definition reader_onload :: "jsfile \<Rightarrow> bool \<Rightarrow> jsstring \<Rightarrow> app \<Rightarrow> app" where
  "reader_onload f isVerify result s =
     (if isVerify
      then s\<lparr> verifyImage := Some f, verifyPreview := Some result \<rparr>
      else s\<lparr> selectedFile := Some f, previewUrl := Some result \<rparr>)"

text \<open>The \<^verbatim>\<open>onClick\<close> handler of the "Use Camera" / "Use File Upload" button.\<close>

definition toggleCamera :: "app \<Rightarrow> app" where
  "toggleCamera s =
     s\<lparr> useCamera := \<not> useCamera s, verifyImage := None, verifyPreview := None \<rparr>"

section \<open>JavaScript values\<close>

text \<open>\<^verbatim>\<open>ToBoolean\<close> of a parsed value; \<open>None\<close> stands for \<^verbatim>\<open>undefined\<close>.\<close>

fun truthy :: "json \<Rightarrow> bool" where
  "truthy JNull = False"
| "truthy (JBool b) = b"
| "truthy (JNum NaN) = False"
| "truthy (JNum (Infinity _)) = True"
| "truthy (JNum (Finite _ q)) = (q \<noteq> 0)"
| "truthy (JStr s) = (s \<noteq> [])"
| "truthy (JArr _) = True"
| "truthy (JObj _) = True"

text \<open>\<^verbatim>\<open>v || d\<close>, where \<open>v\<close> may be \<^verbatim>\<open>undefined\<close>.\<close>

definition or_else :: "json option \<Rightarrow> json \<Rightarrow> json" where
  "or_else v d = (case v of None \<Rightarrow> d | Some x \<Rightarrow> if truthy x then x else d)"

text \<open>
  \<^verbatim>\<open>v.k\<close> for the keys the component reads (\<^verbatim>\<open>detail\<close>, \<^verbatim>\<open>success\<close>,
  \<^verbatim>\<open>enrolled_users\<close>, \<^verbatim>\<open>confidence\<close>): reading a property of \<^verbatim>\<open>null\<close> throws a
  TypeError, an object yields the value stored under the key or \<^verbatim>\<open>undefined\<close>,
  and every other value yields \<^verbatim>\<open>undefined\<close>, none of these keys being a property
  of the built-in prototypes.
\<close>

fun get_prop :: "json \<Rightarrow> jsstring \<Rightarrow> js_error + json option" where
  "get_prop JNull k = Inl TypeError"
| "get_prop (JObj kvs) k = Inr (map_of kvs k)"
| "get_prop _ k = Inr None"

subsection \<open>\<^verbatim>\<open>encodeURIComponent\<close>\<close>

definition uri_unreserved :: "16 word \<Rightarrow> bool" where
  "uri_unreserved c \<longleftrightarrow>
     (0x41 \<le> c \<and> c \<le> 0x5A) \<or> (0x61 \<le> c \<and> c \<le> 0x7A) \<or> (0x30 \<le> c \<and> c \<le> 0x39) \<or>
     c = 0x2D \<or> c = 0x5F \<or> c = 0x2E \<or> c = 0x21 \<or> c = 0x7E \<or> c = 0x2A \<or>
     c = 0x27 \<or> c = 0x28 \<or> c = 0x29"

definition hex_digit :: "nat \<Rightarrow> 16 word" where
  "hex_digit n = (if n < 10 then 0x30 + of_nat n else 0x41 + of_nat (n - 10))"

definition percent_octet :: "nat \<Rightarrow> jsstring" where
  "percent_octet b = [0x25, hex_digit (b div 16), hex_digit (b mod 16)]"

text \<open>The UTF-8 octets of a code point.\<close>

definition utf8 :: "nat \<Rightarrow> nat list" where
  "utf8 cp =
     (if cp < 0x80 then [cp]
      else if cp < 0x800 then [0xC0 + cp div 64, 0x80 + cp mod 64]
      else if cp < 0x10000
      then [0xE0 + cp div 4096, 0x80 + cp div 64 mod 64, 0x80 + cp mod 64]
      else [0xF0 + cp div 262144, 0x80 + cp div 4096 mod 64,
            0x80 + cp div 64 mod 64, 0x80 + cp mod 64])"

definition percent_encode :: "nat \<Rightarrow> jsstring" where
  "percent_encode cp = concat (map percent_octet (utf8 cp))"

text \<open>
  Unreserved code units are copied; every other code point is written as the
  percent-escapes of its UTF-8 octets; a surrogate code unit that is not part of
  a pair throws a URIError.
\<close>

fun encodeURIComponent :: "jsstring \<Rightarrow> js_error + jsstring" where
  "encodeURIComponent [] = Inr []"
| "encodeURIComponent (c # cs) =
     (if uri_unreserved c
      then (case encodeURIComponent cs of Inl e \<Rightarrow> Inl e | Inr r \<Rightarrow> Inr (c # r))
      else if c < 0xD800 \<or> 0xDFFF < c
      then (case encodeURIComponent cs of
              Inl e \<Rightarrow> Inl e
            | Inr r \<Rightarrow> Inr (percent_encode (unat c) @ r))
      else if 0xDC00 \<le> c then Inl URIError
      else (case cs of
              [] \<Rightarrow> Inl URIError
            | d # ds \<Rightarrow>
                if 0xDC00 \<le> d \<and> d \<le> 0xDFFF
                then (case encodeURIComponent ds of
                        Inl e \<Rightarrow> Inl e
                      | Inr r \<Rightarrow>
                          Inr (percent_encode
                                 (0x10000 + (unat c - 0xD800) * 0x400 + (unat d - 0xDC00)) @ r))
                else Inl URIError))"

subsection \<open>\<^verbatim>\<open>s.split(sep)\<close> and indexing\<close>

fun splitOn :: "16 word \<Rightarrow> jsstring \<Rightarrow> jsstring list" where
  "splitOn sep [] = [[]]"
| "splitOn sep (c # cs) =
     (if c = sep then [] # splitOn sep cs
      else (case splitOn sep cs of [] \<Rightarrow> [[c]] | x # xs \<Rightarrow> (c # x) # xs))"

text \<open>\<^verbatim>\<open>xs[i]\<close>: \<^verbatim>\<open>undefined\<close> out of range.\<close>

definition index :: "'a list \<Rightarrow> nat \<Rightarrow> 'a option" where
  "index xs i = (if i < length xs then Some (xs ! i) else None)"

section \<open>Request dispatcher\<close>

text \<open>
  What a \<^verbatim>\<open>fetch\<close> promise settles to: it rejects on a transport failure, and
  otherwise resolves to a response with its \<^verbatim>\<open>ok\<close> flag (status 2xx) and its
  body, \<open>None\<close> when the body is not JSON (\<^verbatim>\<open>response.json()\<close> then rejects).
\<close>

record response =
  ok :: bool
  json_body :: "json option"

datatype fetch_outcome = Rejected | Resolved response

definition fetch :: "request \<Rightarrow> app \<Rightarrow> app" where
  "fetch r s = s\<lparr> requests := requests s @ [r] \<rparr>"

definition console_error :: "jsstring \<Rightarrow> js_error \<Rightarrow> app \<Rightarrow> app" where
  "console_error m e s = s\<lparr> console := console s @ [(m, e)] \<rparr>"

text \<open>
  An \<^verbatim>\<open>async\<close> function runs up to its first \<^verbatim>\<open>await\<close> when it is called; the
  rest runs when the awaited promise settles. Each handler is therefore given as
  the function of its call and the functions of its resumptions, which take what
  the promise settled to. The values a resumption reads from the closure of the
  call (\<^verbatim>\<open>userId\<close>, \<^verbatim>\<open>selectedFile\<close>, \<^verbatim>\<open>event\<close>, \<^verbatim>\<open>token\<close>) are passed on
  explicitly. Where an \<^verbatim>\<open>await response.json()\<close> follows an \<^verbatim>\<open>await fetch\<close>
  with no access to the state in between, both are one resumption.
\<close>

definition fetchHealth :: "app \<Rightarrow> app" where
  "fetchHealth s =
     fetch \<lparr> rmethod = GET, rurl = API_BASE_URL @ str ''/health'',
             rheaders = [], rbody = NoBody \<rparr> s"

definition fetchHealth_resume :: "fetch_outcome \<Rightarrow> app \<Rightarrow> app" where
  "fetchHealth_resume out s =
     (case out of
        Rejected \<Rightarrow> console_error (str ''Failed to fetch health:'') FetchFailed s
      | Resolved r \<Rightarrow>
          (case json_body r of
             None \<Rightarrow> console_error (str ''Failed to fetch health:'') SyntaxError s
           | Some data \<Rightarrow> s\<lparr> systemHealth := data \<rparr>))"

definition fetchUsers :: "app \<Rightarrow> app" where
  "fetchUsers s =
     fetch \<lparr> rmethod = GET, rurl = API_BASE_URL @ str ''/users'',
             rheaders = [], rbody = NoBody \<rparr> s"

definition fetchUsers_resume :: "fetch_outcome \<Rightarrow> app \<Rightarrow> app" where
  "fetchUsers_resume out s =
     (case out of
        Rejected \<Rightarrow> console_error (str ''Failed to fetch users:'') FetchFailed s
      | Resolved r \<Rightarrow>
          (case json_body r of
             None \<Rightarrow> console_error (str ''Failed to fetch users:'') SyntaxError s
           | Some data \<Rightarrow>
               (case get_prop data (str ''enrolled_users'') of
                  Inl e \<Rightarrow> console_error (str ''Failed to fetch users:'') e s
                | Inr v \<Rightarrow> s\<lparr> enrolledUsers := or_else v (JArr []) \<rparr>)))"

text \<open>The \<^verbatim>\<open>useEffect\<close> that runs once at mount.\<close>

definition mount :: "app \<Rightarrow> app" where
  "mount s = fetchUsers (fetchHealth s)"

subsection \<open>Enroll\<close>

definition handleEnroll_catch :: "app \<Rightarrow> app" where
  "handleEnroll_catch s =
     showNotification (JStr (str ''Network error during enrollment'')) SevError s"

definition handleEnroll_finally :: "app \<Rightarrow> app" where
  "handleEnroll_finally s = s\<lparr> isLoading := False \<rparr>"

text \<open>
  The call of \<^verbatim>\<open>handleEnroll\<close>, up to the first \<^verbatim>\<open>await fetch\<close>. The second
  component is \<open>None\<close> when the handler has returned, and otherwise holds the
  \<^verbatim>\<open>userId\<close> and \<^verbatim>\<open>selectedFile\<close> of its closure.
\<close>

definition handleEnroll :: "app \<Rightarrow> app \<times> (jsstring \<times> jsfile) option" where
  "handleEnroll s =
     (if trim (userId s) = []
      then (showNotification (JStr (str ''Please enter a user ID'')) SevError s, None)
      else (case selectedFile s of
              None \<Rightarrow> (showNotification (JStr (str ''Please select an image'')) SevError s, None)
            | Some f \<Rightarrow>
                (fetch \<lparr> rmethod = POST, rurl = API_BASE_URL @ str ''/enroll'',
                         rheaders = [(str ''Content-Type'', str ''application/json'')],
                         rbody = JsonBody [(str ''user_id'', JStr (userId s))] \<rparr>
                   (s\<lparr> isLoading := True \<rparr>),
                 Some (userId s, f))))"

text \<open>
  After the first \<^verbatim>\<open>fetch\<close> has settled: the second request is built and sent.
  The flag tells whether the handler is now waiting for it.
\<close>

definition handleEnroll_resume1 ::
  "jsstring \<Rightarrow> jsfile \<Rightarrow> fetch_outcome \<Rightarrow> app \<Rightarrow> app \<times> bool" where
  "handleEnroll_resume1 uid f out s =
     (case out of
        Rejected \<Rightarrow> (handleEnroll_finally (handleEnroll_catch s), False)
      | Resolved _ \<Rightarrow>
          (case encodeURIComponent uid of
             Inl _ \<Rightarrow> (handleEnroll_finally (handleEnroll_catch s), False)
           | Inr q \<Rightarrow>
               (fetch \<lparr> rmethod = POST,
                        rurl = API_BASE_URL @ str ''/enroll?user_id='' @ q,
                        rheaders = [], rbody = FormDataBody f \<rparr> s,
                True)))"

text \<open>After the second \<^verbatim>\<open>fetch\<close> has settled.\<close>

definition handleEnroll_resume2 :: "fetch_outcome \<Rightarrow> app \<Rightarrow> app" where
  "handleEnroll_resume2 out s =
     (case out of
        Rejected \<Rightarrow> handleEnroll_finally (handleEnroll_catch s)
      | Resolved r \<Rightarrow>
          if ok r
          then handleEnroll_finally
                 (fetchHealth
                    (fetchUsers
                       ((showNotification (JStr (str ''Face enrolled successfully!'')) SevSuccess s)
                          \<lparr> userId := [], selectedFile := None, previewUrl := None \<rparr>)))
          else (case json_body r of
                  None \<Rightarrow> handleEnroll_finally (handleEnroll_catch s)
                | Some err \<Rightarrow>
                    (case get_prop err (str ''detail'') of
                       Inl _ \<Rightarrow> handleEnroll_finally (handleEnroll_catch s)
                     | Inr d \<Rightarrow>
                         handleEnroll_finally
                           (showNotification
                              (or_else d (JStr (str ''Enrollment failed''))) SevError s))))"

text \<open>A whole run of \<^verbatim>\<open>handleEnroll\<close>, given what its two requests settle to.\<close>

definition handleEnroll_run :: "fetch_outcome \<Rightarrow> fetch_outcome \<Rightarrow> app \<Rightarrow> app" where
  "handleEnroll_run out1 out2 s =
     (case handleEnroll s of
        (s1, None) \<Rightarrow> s1
      | (s1, Some (uid, f)) \<Rightarrow>
          (case handleEnroll_resume1 uid f out1 s1 of
             (s2, False) \<Rightarrow> s2
           | (s2, True) \<Rightarrow> handleEnroll_resume2 out2 s2))"

subsection \<open>Verify\<close>

definition handleVerify_catch :: "app \<Rightarrow> app" where
  "handleVerify_catch s =
     showNotification (JStr (str ''Network error during verification'')) SevError s"

definition handleVerify_finally :: "app \<Rightarrow> app" where
  "handleVerify_finally s = s\<lparr> isLoading := False \<rparr>"

text \<open>
  The call of \<^verbatim>\<open>handleVerify\<close>, up to \<^verbatim>\<open>await fileToBase64(verifyImage)\<close>, which
  starts a \<^verbatim>\<open>FileReader\<close>. The second component holds the \<^verbatim>\<open>event\<close> and
  \<^verbatim>\<open>token\<close> of the closure when the handler is waiting.
\<close>

definition handleVerify :: "app \<Rightarrow> app \<times> (jsstring \<times> jsstring) option" where
  "handleVerify s =
     (if trim (token s) = []
      then (showNotification (JStr (str ''Please enter a JWT token'')) SevError s, None)
      else (case verifyImage s of
              None \<Rightarrow>
                (showNotification (JStr (str ''Please select an image for verification''))
                   SevError s, None)
            | Some f \<Rightarrow>
                (s\<lparr> isLoading := True, verificationResult := JNull,
                    reads := reads s @ [f] \<rparr>,
                 Some (event s, token s))))"

text \<open>
  After the reader has finished: \<open>None\<close> when it failed (\<^verbatim>\<open>onerror\<close>), else
  the data URL. \<^verbatim>\<open>JSON.stringify\<close> leaves out a field that is \<^verbatim>\<open>undefined\<close>.
\<close>

definition handleVerify_resume1 ::
  "jsstring \<Rightarrow> jsstring \<Rightarrow> jsstring option \<Rightarrow> app \<Rightarrow> app \<times> bool" where
  "handleVerify_resume1 ev tok rd s =
     (case rd of
        None \<Rightarrow> (handleVerify_finally (handleVerify_catch s), False)
      | Some base64Image \<Rightarrow>
          (fetch \<lparr> rmethod = POST, rurl = API_BASE_URL @ str ''/verify'',
                   rheaders = [(str ''Content-Type'', str ''application/json'')],
                   rbody = JsonBody
                     ([(str ''event'', JStr ev), (str ''token'', JStr tok)] @
                      (case index (splitOn 0x2C base64Image) 1 of
                         None \<Rightarrow> []
                       | Some d \<Rightarrow> [(str ''facial_data'', JStr d)])) \<rparr> s,
           True))"

text \<open>After the \<^verbatim>\<open>fetch\<close> has settled. The status of the response is never read.\<close>

definition handleVerify_resume2 :: "fetch_outcome \<Rightarrow> app \<Rightarrow> app" where
  "handleVerify_resume2 out s =
     (case out of
        Rejected \<Rightarrow> handleVerify_finally (handleVerify_catch s)
      | Resolved r \<Rightarrow>
          (case json_body r of
             None \<Rightarrow> handleVerify_finally (handleVerify_catch s)
           | Some result \<Rightarrow>
               (let s1 = s\<lparr> verificationResult := result \<rparr>
                in case get_prop result (str ''success'') of
                     Inl _ \<Rightarrow> handleVerify_finally (handleVerify_catch s1)
                   | Inr v \<Rightarrow>
                       if (case v of None \<Rightarrow> False | Some x \<Rightarrow> truthy x)
                       then handleVerify_finally
                              (showNotification (JStr (str ''Verification successful!''))
                                 SevSuccess s1)
                       else handleVerify_finally
                              (showNotification (JStr (str ''Verification failed''))
                                 SevError s1))))"

text \<open>A whole run of \<^verbatim>\<open>handleVerify\<close>.\<close>

definition handleVerify_run :: "jsstring option \<Rightarrow> fetch_outcome \<Rightarrow> app \<Rightarrow> app" where
  "handleVerify_run rd out s =
     (case handleVerify s of
        (s1, None) \<Rightarrow> s1
      | (s1, Some (ev, tok)) \<Rightarrow>
          (case handleVerify_resume1 ev tok rd s1 of
             (s2, False) \<Rightarrow> s2
           | (s2, True) \<Rightarrow> handleVerify_resume2 out s2))"

subsection \<open>Delete\<close>

definition deleteUser_catch :: "app \<Rightarrow> app" where
  "deleteUser_catch s =
     showNotification (JStr (str ''Network error during deletion'')) SevError s"

text \<open>
  The call of \<^verbatim>\<open>deleteUser(userIdToDelete)\<close>, up to \<^verbatim>\<open>await fetch\<close>.
  \<open>confirmed\<close> is what \<^verbatim>\<open>window.confirm\<close> returns: whether the user accepted the
  prompt. The flag tells whether the handler is waiting for the request.
\<close>

definition deleteUser :: "bool \<Rightarrow> jsstring \<Rightarrow> app \<Rightarrow> app \<times> bool" where
  "deleteUser confirmed userIdToDelete s =
     (if \<not> confirmed then (s, False)
      else (case encodeURIComponent userIdToDelete of
              Inl _ \<Rightarrow> (deleteUser_catch s, False)
            | Inr q \<Rightarrow>
                (fetch \<lparr> rmethod = DELETE, rurl = API_BASE_URL @ str ''/enroll/'' @ q,
                         rheaders = [], rbody = NoBody \<rparr> s,
                 True)))"

definition deleteUser_resume :: "fetch_outcome \<Rightarrow> app \<Rightarrow> app" where
  "deleteUser_resume out s =
     (case out of
        Rejected \<Rightarrow> deleteUser_catch s
      | Resolved r \<Rightarrow>
          if ok r
          then fetchHealth
                 (fetchUsers
                    (showNotification (JStr (str ''User deleted successfully'')) SevSuccess s))
          else (case json_body r of
                  None \<Rightarrow> deleteUser_catch s
                | Some err \<Rightarrow>
                    (case get_prop err (str ''detail'') of
                       Inl _ \<Rightarrow> deleteUser_catch s
                     | Inr d \<Rightarrow>
                         showNotification
                           (or_else d (JStr (str ''Failed to delete user''))) SevError s)))"

text \<open>A whole run of \<^verbatim>\<open>deleteUser\<close>.\<close>

definition deleteUser_run :: "bool \<Rightarrow> jsstring \<Rightarrow> fetch_outcome \<Rightarrow> app \<Rightarrow> app" where
  "deleteUser_run confirmed userIdToDelete out s =
     (case deleteUser confirmed userIdToDelete s of
        (s1, False) \<Rightarrow> s1
      | (s1, True) \<Rightarrow> deleteUser_resume out s1)"

section \<open>The view: buttons and clicks\<close>

text \<open>The \<^verbatim>\<open>disabled\<close> attribute of the two submit buttons.\<close>

definition enroll_disabled :: "app \<Rightarrow> bool" where
  "enroll_disabled s \<longleftrightarrow> isLoading s \<or> userId s = [] \<or> selectedFile s = None"

definition verify_disabled :: "app \<Rightarrow> bool" where
  "verify_disabled s \<longleftrightarrow> isLoading s \<or> token s = [] \<or> verifyImage s = None"

text \<open>
  A click on a submit button: the button is part of the page only while its tab
  is the active one, and a disabled button does not call its handler.
\<close>

definition click_enroll :: "app \<Rightarrow> app \<times> (jsstring \<times> jsfile) option" where
  "click_enroll s =
     (if activeTab s = EnrollTab \<and> \<not> enroll_disabled s then handleEnroll s else (s, None))"

definition click_verify :: "app \<Rightarrow> app \<times> (jsstring \<times> jsstring) option" where
  "click_verify s =
     (if activeTab s = VerifyTab \<and> \<not> verify_disabled s then handleVerify s else (s, None))"

text \<open>The requests of a log that use a given method and URL.\<close>

definition sent :: "http_method \<Rightarrow> jsstring \<Rightarrow> request list \<Rightarrow> nat" where
  "sent m u rs = length (filter (\<lambda>r. rmethod r = m \<and> rurl r = u) rs)"

definition sent_method :: "http_method \<Rightarrow> request list \<Rightarrow> nat" where
  "sent_method m rs = length (filter (\<lambda>r. rmethod r = m) rs)"

section \<open>The verification result panel\<close>

subsection \<open>Double arithmetic\<close>

text \<open>\<open>pow2 p\<close> is 2 to the power \<open>p\<close>, for any integer \<open>p\<close>.\<close>

definition pow2 :: "int \<Rightarrow> rat" where
  "pow2 p = (if 0 \<le> p then 2 ^ nat p else 1 / 2 ^ nat (- p))"

text \<open>The number of binary digits of a natural number.\<close>

fun bitlen :: "nat \<Rightarrow> nat" where
  "bitlen n = (if n = 0 then 0 else Suc (bitlen (n div 2)))"

declare bitlen.simps [simp del]

text \<open>For \<open>q > 0\<close>, the exponent \<open>e\<close> with \<open>2\<^sup>e \<le> q < 2\<^sup>e\<^sup>+\<^sup>1\<close>.\<close>

definition floor_log2 :: "rat \<Rightarrow> int" where
  "floor_log2 q =
     (if 1 \<le> q then int (bitlen (nat \<lfloor>q\<rfloor>)) - 1
      else - int (bitlen (nat (\<lceil>1 / q\<rceil> - 1))))"

definition round_half_even :: "rat \<Rightarrow> int" where
  "round_half_even r =
     (let f = \<lfloor>r\<rfloor>; d = r - of_int f
      in if d < 1 / 2 then f else if 1 / 2 < d then f + 1 else if even f then f else f + 1)"

text \<open>
  The double nearest to a rational magnitude \<open>q \<ge> 0\<close>, ties to even: 53
  significant bits, the unit in the last place never below \<open>2\<^sup>-\<^sup>1\<^sup>0\<^sup>7\<^sup>4\<close>, and
  infinity from \<open>2\<^sup>1\<^sup>0\<^sup>2\<^sup>4\<close> on. This is the result of every arithmetic operation
  on doubles and of reading a number literal.
\<close>

definition to_double :: "bool \<Rightarrow> rat \<Rightarrow> jsnum" where
  "to_double neg q =
     (if q = 0 then Finite neg 0
      else let p = max (floor_log2 q - 52) (- 1074);
               v = of_int (round_half_even (q / pow2 p)) * pow2 p
           in if 2 ^ 1024 \<le> v then Infinity neg else Finite neg v)"

text \<open>The operator \<^verbatim>\<open>*\<close> on numbers.\<close>

fun js_mul :: "jsnum \<Rightarrow> jsnum \<Rightarrow> jsnum" where
  "js_mul NaN _ = NaN"
| "js_mul _ NaN = NaN"
| "js_mul (Infinity a) (Infinity b) = Infinity (a \<noteq> b)"
| "js_mul (Infinity a) (Finite b q) = (if q = 0 then NaN else Infinity (a \<noteq> b))"
| "js_mul (Finite a p) (Infinity b) = (if p = 0 then NaN else Infinity (a \<noteq> b))"
| "js_mul (Finite a p) (Finite b q) = to_double (a \<noteq> b) (p * q)"

text \<open>
  \<^verbatim>\<open>ToNumber\<close> of a value that may be \<^verbatim>\<open>undefined\<close>. Reading a number out of a
  string, an array or an object is left to the parameter \<open>conv\<close>.
\<close>

fun to_number :: "(json \<Rightarrow> jsnum) \<Rightarrow> json option \<Rightarrow> jsnum" where
  "to_number conv None = NaN"
| "to_number conv (Some JNull) = Finite False 0"
| "to_number conv (Some (JBool b)) = Finite False (if b then 1 else 0)"
| "to_number conv (Some (JNum x)) = x"
| "to_number conv (Some v) = conv v"

text \<open>The decimal digits of a natural number.\<close>

fun digits :: "nat \<Rightarrow> jsstring" where
  "digits n =
     (if n < 10 then [0x30 + of_nat n] else digits (n div 10) @ [0x30 + of_nat (n mod 10)])"

declare digits.simps [simp del]

text \<open>
  \<^verbatim>\<open>x.toFixed(1)\<close>: the integer \<open>n\<close> with \<open>n / 10\<close> nearest to the magnitude, the
  larger one on a tie, written with a point before its last digit. From
  \<open>10\<^sup>2\<^sup>1\<close> on the result is the plain conversion of the number to a string,
  the parameter \<open>big\<close>.
\<close>

definition toFixed1 :: "(rat \<Rightarrow> jsstring) \<Rightarrow> jsnum \<Rightarrow> jsstring" where
  "toFixed1 big x =
     (case x of
        NaN \<Rightarrow> str ''NaN''
      | Infinity neg \<Rightarrow> (if neg then str ''-Infinity'' else str ''Infinity'')
      | Finite neg q \<Rightarrow>
          (let s = (if neg \<and> 0 < q then str ''-'' else [])
           in if 10 ^ 21 \<le> q then s @ big q
              else let n = nat \<lfloor>q * 10 + 1 / 2\<rfloor>;
                       m = (if length (digits n) \<le> 1
                            then replicate (2 - length (digits n)) 0x30 @ digits n
                            else digits n);
                       k = length m
                   in s @ take (k - 1) m @ str ''.'' @ drop (k - 1) m))"

subsection \<open>The panel\<close>

text \<open>
  What React accepts as a child: an object is refused (the render throws), an
  array is accepted when each of its elements is.
\<close>

fun renderable :: "json \<Rightarrow> bool" and renderable_list :: "json list \<Rightarrow> bool" where
  "renderable (JObj kvs) = False"
| "renderable (JArr xs) = renderable_list xs"
| "renderable JNull = True"
| "renderable (JBool b) = True"
| "renderable (JNum x) = True"
| "renderable (JStr s) = True"
| "renderable_list [] = True"
| "renderable_list (x # xs) = (renderable x \<and> renderable_list xs)"

definition valid_child :: "json option \<Rightarrow> bool" where
  "valid_child v = (case v of None \<Rightarrow> True | Some x \<Rightarrow> renderable x)"

datatype panel_style = GreenPanel | RedPanel

text \<open>
  The result panel of the verify tab: the colour classes, the heading, and the
  four lines (user id, event, confidence, message).
\<close>

record result_panel =
  pstyle :: panel_style
  heading :: jsstring
  user_id_child :: "json option"
  event_child :: "json option"
  confidence_text :: jsstring
  message_child :: "json option"

text \<open>
  The panel is part of the page when the verify tab is active and
  \<^verbatim>\<open>verificationResult\<close> is truthy. \<open>Inl\<close> is a render that throws.
\<close>

definition render_result ::
  "(json \<Rightarrow> jsnum) \<Rightarrow> (rat \<Rightarrow> jsstring) \<Rightarrow> app \<Rightarrow> js_error + result_panel option" where
  "render_result conv big s =
     (if activeTab s = VerifyTab \<and> truthy (verificationResult s)
      then (case get_prop (verificationResult s) (str ''success'') of
              Inl e \<Rightarrow> Inl e
            | Inr success \<Rightarrow>
          (case get_prop (verificationResult s) (str ''user_id'') of
              Inl e \<Rightarrow> Inl e
            | Inr user_id \<Rightarrow>
          (case get_prop (verificationResult s) (str ''event'') of
              Inl e \<Rightarrow> Inl e
            | Inr ev \<Rightarrow>
          (case get_prop (verificationResult s) (str ''confidence'') of
              Inl e \<Rightarrow> Inl e
            | Inr confidence \<Rightarrow>
          (case get_prop (verificationResult s) (str ''message'') of
              Inl e \<Rightarrow> Inl e
            | Inr msg \<Rightarrow>
                if valid_child user_id \<and> valid_child ev \<and> valid_child msg
                then Inr (Some
                  \<lparr> pstyle =
                      (if (case success of None \<Rightarrow> False | Some x \<Rightarrow> truthy x)
                       then GreenPanel else RedPanel),
                    heading =
                      (if (case success of None \<Rightarrow> False | Some x \<Rightarrow> truthy x)
                       then str ''Verification Successful''
                       else str ''Verification Failed''),
                    user_id_child = user_id,
                    event_child = ev,
                    confidence_text =
                      toFixed1 big (js_mul (to_number conv confidence) (Finite False 100))
                        @ str ''%'',
                    message_child = msg \<rparr>)
                else Inl InvalidChild)))))
      else Inr None)"

section \<open>Sample inputs\<close>

definition example_png :: jsfile where
  "example_png = \<lparr> fname = str ''face.png'', ftype = str ''image/png'', fsize = 1000 \<rparr>"

definition example_txt :: jsfile where
  "example_txt = \<lparr> fname = str ''notes.txt'', ftype = str ''text/plain'', fsize = 10 \<rparr>"

definition example_big :: jsfile where
  "example_big =
     \<lparr> fname = str ''big.png'', ftype = str ''image/png'', fsize = 5 * 1024 * 1024 + 1 \<rparr>"

text \<open>The enroll form filled in for user \<^verbatim>\<open>alice\<close>.\<close>

definition enroll_ready :: app where
  "enroll_ready = initial\<lparr> userId := str ''alice'', selectedFile := Some example_png \<rparr>"

text \<open>The enroll form with a user id of one space.\<close>

definition enroll_blank :: app where
  "enroll_blank = initial\<lparr> userId := str '' '', selectedFile := Some example_png \<rparr>"

text \<open>Both forms filled in.\<close>

definition both_ready :: app where
  "both_ready = enroll_ready\<lparr> token := str ''jwt'', verifyImage := Some example_png \<rparr>"

definition ok_response :: response where
  "ok_response = \<lparr> ok = True, json_body = Some (JObj []) \<rparr>"

text \<open>A state that shows the result of an earlier verification.\<close>

definition with_result :: app where
  "with_result = initial\<lparr> verificationResult := JObj [(str ''success'', JBool False)] \<rparr>"

text \<open>
  A verify response of the shape the service promises, with \<^verbatim>\<open>success: false\<close>
  and a confidence of magnitude \<open>c\<close>.
\<close>

definition failure_body :: "jsstring \<Rightarrow> jsstring \<Rightarrow> rat \<Rightarrow> jsstring \<Rightarrow> json" where
  "failure_body u ev c m =
     JObj [(str ''success'', JBool False), (str ''user_id'', JStr u), (str ''event'', JStr ev),
           (str ''confidence'', JNum (Finite False c)), (str ''message'', JStr m)]"

text \<open>
  The response \<^verbatim>\<open>{success:false, user_id:"bob", event:"login-event",
  confidence:0.12, message:"no match"}\<close>; the literal \<^verbatim>\<open>0.12\<close> is read as the
  nearest double.
\<close>

definition no_match :: json where
  "no_match =
     JObj [(str ''success'', JBool False), (str ''user_id'', JStr (str ''bob'')),
           (str ''event'', JStr (str ''login-event'')),
           (str ''confidence'', JNum (to_double False (12 / 100))),
           (str ''message'', JStr (str ''no match''))]"

section \<open>Auxiliary facts\<close>

lemma trim_Nil: "trim [] = []"
  by (simp add: trim_def)

lemma trim_nonempty: "trim u \<noteq> [] \<Longrightarrow> u \<noteq> []"
  by (auto simp: trim_Nil)

lemma trim_space: "trim (str '' '') = []"
  by (simp add: trim_def str_def is_whitespace_def)

lemma trim_alice: "trim (str ''alice'') = str ''alice''"
  by (simp add: trim_def str_def is_whitespace_def)

lemma encode_alice: "encodeURIComponent (str ''alice'') = Inr (str ''alice'')"
  by (simp add: str_def uri_unreserved_def)

lemma sent_append: "sent m u (xs @ ys) = sent m u xs + sent m u ys"
  by (simp add: sent_def)

lemma users_health_urls:
  "str ''/users'' \<noteq> str ''/health''" "str ''/health'' \<noteq> str ''/users''"
  by (simp_all add: str_def)

lemma refresh_requests:
  "requests (fetchHealth (fetchUsers s)) =
     requests s @
       [\<lparr> rmethod = GET, rurl = API_BASE_URL @ str ''/users'', rheaders = [], rbody = NoBody \<rparr>,
        \<lparr> rmethod = GET, rurl = API_BASE_URL @ str ''/health'', rheaders = [], rbody = NoBody \<rparr>]"
  by (simp add: fetchHealth_def fetchUsers_def fetch_def)

lemma enroll_success_requests:
  assumes "trim (userId s) \<noteq> []" "selectedFile s = Some f"
    "encodeURIComponent (userId s) = Inr q" "ok r2"
  shows "requests (handleEnroll_run (Resolved r1) (Resolved r2) s) =
     requests s @
       [\<lparr> rmethod = POST, rurl = API_BASE_URL @ str ''/enroll'',
           rheaders = [(str ''Content-Type'', str ''application/json'')],
           rbody = JsonBody [(str ''user_id'', JStr (userId s))] \<rparr>,
        \<lparr> rmethod = POST, rurl = API_BASE_URL @ str ''/enroll?user_id='' @ q,
           rheaders = [], rbody = FormDataBody f \<rparr>,
        \<lparr> rmethod = GET, rurl = API_BASE_URL @ str ''/users'', rheaders = [], rbody = NoBody \<rparr>,
        \<lparr> rmethod = GET, rurl = API_BASE_URL @ str ''/health'', rheaders = [], rbody = NoBody \<rparr>]"
  using assms
  by (simp add: handleEnroll_run_def handleEnroll_def handleEnroll_resume1_def
      handleEnroll_resume2_def handleEnroll_finally_def refresh_requests fetch_def
      showNotification_def)

lemma enroll_success_form:
  assumes "trim (userId s) \<noteq> []" "selectedFile s = Some f"
    "encodeURIComponent (userId s) = Inr q" "ok r2"
  shows "userId (handleEnroll_run (Resolved r1) (Resolved r2) s) = [] \<and>
         selectedFile (handleEnroll_run (Resolved r1) (Resolved r2) s) = None \<and>
         previewUrl (handleEnroll_run (Resolved r1) (Resolved r2) s) = None"
  using assms
  by (simp add: handleEnroll_run_def handleEnroll_def handleEnroll_resume1_def
      handleEnroll_resume2_def handleEnroll_finally_def fetchHealth_def fetchUsers_def fetch_def
      showNotification_def)

lemma delete_success_requests:
  assumes "encodeURIComponent u = Inr q" "ok r"
  shows "requests (deleteUser_run True u (Resolved r) s) =
     requests s @
       [\<lparr> rmethod = DELETE, rurl = API_BASE_URL @ str ''/enroll/'' @ q,
           rheaders = [], rbody = NoBody \<rparr>,
        \<lparr> rmethod = GET, rurl = API_BASE_URL @ str ''/users'', rheaders = [], rbody = NoBody \<rparr>,
        \<lparr> rmethod = GET, rurl = API_BASE_URL @ str ''/health'', rheaders = [], rbody = NoBody \<rparr>]"
  using assms
  by (simp add: deleteUser_run_def deleteUser_def deleteUser_resume_def refresh_requests fetch_def
      showNotification_def)

lemma trim_jwt: "trim (str ''jwt'') = str ''jwt''"
  by (simp add: trim_def str_def is_whitespace_def)

lemma delete_run_confirmed:
  assumes "encodeURIComponent u = Inr q"
  shows "sent_method DELETE (requests (deleteUser_run True u out s)) =
           Suc (sent_method DELETE (requests s)) \<and>
         sent DELETE (API_BASE_URL @ str ''/enroll/'' @ q)
             (requests (deleteUser_run True u out s)) =
           Suc (sent DELETE (API_BASE_URL @ str ''/enroll/'' @ q) (requests s))"
  using assms
  by (simp add: deleteUser_run_def deleteUser_def deleteUser_resume_def deleteUser_catch_def
      fetchHealth_def fetchUsers_def fetch_def showNotification_def sent_method_def sent_def
      split: fetch_outcome.split option.split sum.split)

lemma floor_rat_numeral [simp]:
  "\<lfloor>(numeral a / numeral b :: rat)\<rfloor> = numeral a div numeral b"
  using floor_divide_of_int_eq [of "numeral a" "numeral b", where ?'a = rat] by simp

lemma ceiling_rat_numeral [simp]:
  "\<lceil>(numeral a / numeral b :: rat)\<rceil> = - (- numeral a div numeral b)"
  using ceiling_divide_eq_div [of "numeral a" "numeral b", where ?'a = rat] by simp

lemma double_0_12: "to_double False (12 / 100) = Finite False (8646911284551352 / 2 ^ 56)"
  by (simp add: to_double_def floor_log2_def round_half_even_def pow2_def Let_def bitlen.simps)

lemma double_0_1: "to_double False (1 / 10) = Finite False (3602879701896397 / 2 ^ 55)"
  by (simp add: to_double_def floor_log2_def round_half_even_def pow2_def Let_def bitlen.simps)

lemma double_0_145_times_100:
  "js_mul (to_double False (145 / 1000)) (Finite False 100) =
     Finite False (8162774324609023 / 2 ^ 49)"
  by (simp add: to_double_def floor_log2_def round_half_even_def pow2_def Let_def bitlen.simps)

lemma double_0_12_times_100:
  "js_mul (Finite False (8646911284551352 / 2 ^ 56)) (Finite False 100) = Finite False 12"
  by (simp add: to_double_def floor_log2_def round_half_even_def pow2_def Let_def bitlen.simps)

lemma toFixed1_12: "toFixed1 big (Finite False 12) = str ''12.0''"
  by (simp add: toFixed1_def Let_def digits.simps str_def)

lemma bitlen_le: "n < 2 ^ k \<Longrightarrow> bitlen n \<le> k"
proof (induction k arbitrary: n)
  case 0
  then show ?case by (simp add: bitlen.simps)
next
  case (Suc k)
  then have "n div 2 < 2 ^ k" by simp
  then have "bitlen (n div 2) \<le> k" by (rule Suc.IH)
  then show ?case by (subst bitlen.simps) simp
qed

lemma pow2_pos: "0 < pow2 p"
  by (simp add: pow2_def)

lemma pow2_tiny: assumes "p \<le> - 46" shows "pow2 p \<le> 1 / 2 ^ 46"
proof -
  have "(2 :: rat) ^ 46 \<le> 2 ^ nat (- p)"
    using assms by (intro power_increasing) simp_all
  then have "1 / (2 :: rat) ^ nat (- p) \<le> 1 / 2 ^ 46"
    by (intro divide_left_mono) simp_all
  then show ?thesis
    using assms by (simp add: pow2_def)
qed

lemma round_half_even_le: "of_int (round_half_even r) \<le> r + 1 / 2"
proof -
  define f where "f = \<lfloor>r\<rfloor>"
  have 1: "(of_int f :: rat) \<le> r" by (simp add: f_def)
  have 2: "round_half_even r =
    (if r - of_int f < 1 / 2 then f else if 1 / 2 < r - of_int f then f + 1
     else if even f then f else f + 1)"
    by (simp add: round_half_even_def Let_def f_def)
  show ?thesis
    unfolding 2 using 1 by (auto simp: not_less)
qed

lemma round_half_even_ge: "r - 1 / 2 \<le> of_int (round_half_even r)"
proof -
  define f where "f = \<lfloor>r\<rfloor>"
  have 1: "r < (of_int f :: rat) + 1"
    unfolding f_def using floor_correct [of r, THEN conjunct2]
    by (simp only: of_int_add of_int_1)
  have 2: "round_half_even r =
    (if r - of_int f < 1 / 2 then f else if 1 / 2 < r - of_int f then f + 1
     else if even f then f else f + 1)"
    by (simp add: round_half_even_def Let_def f_def)
  show ?thesis
    unfolding 2 using 1 by (auto simp: not_less)
qed

lemma round_half_even_nonneg: "0 \<le> r \<Longrightarrow> 0 \<le> round_half_even r"
  by (auto simp: round_half_even_def Let_def)

lemma floor_log2_le: assumes "0 < q" "q \<le> 100" shows "floor_log2 q \<le> 6"
proof (cases "1 \<le> q")
  case True
  define m where "m = \<lfloor>q\<rfloor>"
  have "m \<le> 100" using assms by (simp add: m_def floor_le_iff)
  then have "nat m < 2 ^ 7" by simp
  then have "bitlen (nat m) \<le> 7" by (rule bitlen_le)
  with True show ?thesis by (simp add: floor_log2_def m_def)
next
  case False
  then show ?thesis by (simp add: floor_log2_def)
qed

lemma abs_chain:
  fixes a b c x y :: rat
  shows "\<bar>a - b\<bar> \<le> x \<Longrightarrow> \<bar>b - c\<bar> \<le> y \<Longrightarrow> \<bar>a - c\<bar> \<le> x + y"
  by linarith

lemma to_double_close:
  assumes "0 \<le> q" "q \<le> 100"
  shows "\<exists>v. to_double neg q = Finite neg v \<and> 0 \<le> v \<and> v < 10 ^ 21 \<and>
             \<bar>v - q\<bar> \<le> 1 / 2 ^ 47"
proof (cases "q = 0")
  case True
  then show ?thesis by (simp add: to_double_def)
next
  case False
  with assms have qpos: "0 < q" by simp
  define p where "p = max (floor_log2 q - 52) (- 1074)"
  define P where "P = pow2 p"
  define r where "r = q / P"
  define n where "n = round_half_even r"
  define v where "v = (of_int n :: rat) * P"
  have "floor_log2 q \<le> 6" using qpos assms(2) by (rule floor_log2_le)
  then have p0: "p \<le> - 46" by (simp add: p_def)
  have P0: "0 < P"
    by (simp add: P_def pow2_pos)
  have P1: "P \<le> 1 / 2 ^ 46"
    unfolding P_def using p0 by (rule pow2_tiny)
  note P = P0 P1
  have q: "q = r * P" using P by (simp add: r_def)
  have "0 \<le> r" using qpos P by (simp add: r_def)
  then have n0: "0 \<le> n" unfolding n_def by (rule round_half_even_nonneg)
  have a: "of_int n \<le> r + 1 / 2" unfolding n_def by (rule round_half_even_le)
  have b: "r - 1 / 2 \<le> of_int n" unfolding n_def by (rule round_half_even_ge)
  have "\<bar>of_int n - r\<bar> \<le> 1 / 2" using a b by linarith
  then have "\<bar>of_int n - r\<bar> * P \<le> 1 / 2 * P"
    using P by (intro mult_right_mono) simp_all
  moreover have "\<bar>v - q\<bar> = \<bar>of_int n - r\<bar> * P"
    using P by (simp add: v_def q abs_mult left_diff_distrib [symmetric])
  ultimately have c: "\<bar>v - q\<bar> \<le> 1 / 2 * P" by simp
  also have "\<dots> \<le> 1 / 2 ^ 47" using P by simp
  finally have close: "\<bar>v - q\<bar> \<le> 1 / 2 ^ 47" .
  have "(1 :: rat) / 2 ^ 47 \<le> 1" by simp
  with close have "\<bar>v - q\<bar> \<le> 1" by (rule order_trans)
  then have v1: "v \<le> 101" using assms(2) by linarith
  have v0: "0 \<le> v" using n0 P by (simp add: v_def)
  have "\<not> (2 :: rat) ^ 1024 \<le> v" using v1 by simp
  then have "to_double neg q = Finite neg v"
    using False by (simp add: to_double_def Let_def p_def n_def v_def r_def P_def)
  with v0 v1 close show ?thesis by auto
qed

lemma digits_nonempty: "digits n \<noteq> []"
  by (subst digits.simps) simp

lemma toFixed1_exact:
  assumes "0 \<le> v" "v < 10 ^ 21"
  shows "toFixed1 big (Finite False v) =
      digits (nat \<lfloor>v * 10 + 1 / 2\<rfloor> div 10) @ str ''.'' @ digits (nat \<lfloor>v * 10 + 1 / 2\<rfloor> mod 10)"
proof -
  define n where "n = nat \<lfloor>v * 10 + 1 / 2\<rfloor>"
  have "toFixed1 big (Finite False v) = digits (n div 10) @ str ''.'' @ digits (n mod 10)"
  proof (cases "n < 10")
    case True
    then have d: "digits n = [0x30 + of_nat n]" "digits (n div 10) = [0x30]" "n mod 10 = n"
      by (simp_all add: digits.simps)
    show ?thesis
      using assms d by (simp add: toFixed1_def Let_def n_def [symmetric])
  next
    case False
    then have d: "digits n = digits (n div 10) @ [0x30 + of_nat (n mod 10)]"
      by (subst digits.simps) simp
    have e: "digits (n mod 10) = [0x30 + of_nat (n mod 10)]"
      by (subst digits.simps) simp
    have l: "length (digits (n div 10)) \<ge> 1"
      using digits_nonempty [of "n div 10"] by (cases "digits (n div 10)") simp_all
    show ?thesis
      using assms l
      by (simp add: toFixed1_def Let_def n_def [symmetric] d e digits_nonempty)
  qed
  then show ?thesis by (simp only: n_def)
qed

lemma one_decimal_close:
  assumes "0 \<le> v"
  shows "\<bar>of_nat (nat \<lfloor>v * 10 + 1 / 2\<rfloor>) / 10 - v\<bar> \<le> (1 / 20 :: rat)"
proof -
  define k where "k = \<lfloor>v * 10 + 1 / 2\<rfloor>"
  have 1: "(of_int k :: rat) \<le> v * 10 + 1 / 2" by (simp add: k_def)
  have 2: "v * 10 + 1 / 2 < (of_int k :: rat) + 1"
    unfolding k_def using floor_correct [of "v * 10 + 1 / 2", THEN conjunct2]
    by (simp only: of_int_add of_int_1)
  have "0 \<le> k" using assms by (simp add: k_def)
  then have 3: "(of_nat (nat k) :: rat) = of_int k" by simp
  show ?thesis
    unfolding k_def [symmetric] 3 using 1 2 by linarith
qed

lemma double_50: "to_double False 50 = Finite False 50"
  by (simp add: to_double_def floor_log2_def round_half_even_def pow2_def Let_def bitlen.simps)

lemma digits_50: "digits 50 = str ''50''" "digits 0 = str ''0''"
  by (simp_all add: digits.simps str_def)

lemma no_match_eq:
  "no_match =
     failure_body (str ''bob'') (str ''login-event'') (8646911284551352 / 2 ^ 56) (str ''no match'')"
  by (simp only: no_match_def failure_body_def double_0_12)

lemma failure_body_props:
  "get_prop (failure_body u ev c m) (str ''success'') = Inr (Some (JBool False))"
  "get_prop (failure_body u ev c m) (str ''user_id'') = Inr (Some (JStr u))"
  "get_prop (failure_body u ev c m) (str ''event'') = Inr (Some (JStr ev))"
  "get_prop (failure_body u ev c m) (str ''confidence'') = Inr (Some (JNum (Finite False c)))"
  "get_prop (failure_body u ev c m) (str ''message'') = Inr (Some (JStr m))"
  "truthy (failure_body u ev c m)"
  by (simp_all add: failure_body_def str_def)

lemma verify_failure_state:
  "handleVerify_resume2 (Resolved \<lparr> ok = b, json_body = Some (failure_body u ev c m) \<rparr>) s =
     s\<lparr> verificationResult := failure_body u ev c m,
        notification :=
          Some \<lparr> message = JStr (str ''Verification failed''), ntype = SevError \<rparr>,
        timers := timers s @ [now s + 5000], isLoading := False \<rparr>"
  by (simp add: handleVerify_resume2_def failure_body_props handleVerify_finally_def
      showNotification_def Let_def)

lemma render_failure:
  assumes "activeTab s = VerifyTab" "verificationResult s = failure_body u ev c m"
  shows "render_result conv big s =
     Inr (Some \<lparr> pstyle = RedPanel, heading = str ''Verification Failed'',
                 user_id_child = Some (JStr u), event_child = Some (JStr ev),
                 confidence_text =
                   toFixed1 big (js_mul (Finite False c) (Finite False 100)) @ str ''%'',
                 message_child = Some (JStr m) \<rparr>)"
  using assms
  by (simp add: render_result_def failure_body_props valid_child_def)

lemma verify_failure_render:
  assumes c: "0 \<le> c \<and> c \<le> 1"
  shows "\<exists>v n. to_double False (c * 100) = Finite False v \<and>
           \<bar>v - c * 100\<bar> \<le> 1 / 2 ^ 47 \<and>
           n = nat \<lfloor>v * 10 + 1 / 2\<rfloor> \<and>
           \<bar>of_nat n / 10 - c * 100\<bar> \<le> 1 / 20 + 1 / 2 ^ 47 \<and>
           render_result conv big
             ((handleVerify_resume2
                 (Resolved \<lparr> ok = b, json_body = Some (failure_body u ev c m) \<rparr>) s)
              \<lparr> activeTab := VerifyTab \<rparr>) =
             Inr (Some \<lparr> pstyle = RedPanel, heading = str ''Verification Failed'',
                         user_id_child = Some (JStr u), event_child = Some (JStr ev),
                         confidence_text =
                           digits (n div 10) @ str ''.'' @ digits (n mod 10) @ str ''%'',
                         message_child = Some (JStr m) \<rparr>)"
proof -
  from c have "0 \<le> c * 100" "c * 100 \<le> 100" by simp_all
  then obtain v where v: "to_double False (c * 100) = Finite False v" "0 \<le> v" "v < 10 ^ 21"
      "\<bar>v - c * 100\<bar> \<le> 1 / 2 ^ 47"
    using to_double_close [of "c * 100" False] by blast
  define n where "n = nat \<lfloor>v * 10 + 1 / 2\<rfloor>"
  have t: "toFixed1 big (Finite False v) = digits (n div 10) @ str ''.'' @ digits (n mod 10)"
    unfolding n_def using v(2) v(3) by (rule toFixed1_exact)
  have "\<bar>of_nat n / 10 - v\<bar> \<le> (1 / 20 :: rat)"
    unfolding n_def using v(2) by (rule one_decimal_close)
  then have d: "\<bar>of_nat n / 10 - c * 100\<bar> \<le> 1 / 20 + 1 / 2 ^ 47"
    using v(4) by (rule abs_chain)
  have m: "js_mul (Finite False c) (Finite False 100) = Finite False v"
    by (simp add: v(1))
  have "render_result conv big
         ((handleVerify_resume2
             (Resolved \<lparr> ok = b, json_body = Some (failure_body u ev c m) \<rparr>) s)
          \<lparr> activeTab := VerifyTab \<rparr>) =
         Inr (Some \<lparr> pstyle = RedPanel, heading = str ''Verification Failed'',
                     user_id_child = Some (JStr u), event_child = Some (JStr ev),
                     confidence_text =
                       toFixed1 big (js_mul (Finite False c) (Finite False 100)) @ str ''%'',
                     message_child = Some (JStr m) \<rparr>)"
    by (rule render_failure) (simp_all add: verify_failure_state)
  then have r: "render_result conv big
         ((handleVerify_resume2
             (Resolved \<lparr> ok = b, json_body = Some (failure_body u ev c m) \<rparr>) s)
          \<lparr> activeTab := VerifyTab \<rparr>) =
         Inr (Some \<lparr> pstyle = RedPanel, heading = str ''Verification Failed'',
                     user_id_child = Some (JStr u), event_child = Some (JStr ev),
                     confidence_text =
                       digits (n div 10) @ str ''.'' @ digits (n mod 10) @ str ''%'',
                     message_child = Some (JStr m) \<rparr>)"
    unfolding m t by simp
  show ?thesis
    using v(1) v(4) n_def d r by blast
qed

lemma verify_no_match_render: "render_result conv big
     ((handleVerify_resume2 (Resolved \<lparr> ok = b, json_body = Some no_match \<rparr>) s)
      \<lparr> activeTab := VerifyTab \<rparr>) =
     Inr (Some \<lparr> pstyle = RedPanel, heading = str ''Verification Failed'',
                 user_id_child = Some (JStr (str ''bob'')),
                 event_child = Some (JStr (str ''login-event'')),
                 confidence_text = str ''12.0%'',
                 message_child = Some (JStr (str ''no match'')) \<rparr>)"
proof -
  have t: "toFixed1 big (js_mul (Finite False (8646911284551352 / 2 ^ 56)) (Finite False 100))
      @ str ''%'' = str ''12.0%''"
    unfolding double_0_12_times_100 toFixed1_12 by (simp add: str_def)
  have "render_result conv big
     ((handleVerify_resume2 (Resolved \<lparr> ok = b, json_body = Some
        (failure_body (str ''bob'') (str ''login-event'') (8646911284551352 / 2 ^ 56)
           (str ''no match'')) \<rparr>) s)
      \<lparr> activeTab := VerifyTab \<rparr>) =
     Inr (Some \<lparr> pstyle = RedPanel, heading = str ''Verification Failed'',
                 user_id_child = Some (JStr (str ''bob'')),
                 event_child = Some (JStr (str ''login-event'')),
                 confidence_text =
                   toFixed1 big
                     (js_mul (Finite False (8646911284551352 / 2 ^ 56)) (Finite False 100))
                     @ str ''%'',
                 message_child = Some (JStr (str ''no match'')) \<rparr>)"
    by (rule render_failure) (simp_all add: verify_failure_state)
  then show ?thesis
    unfolding t no_match_eq .
qed

section \<open>Media acquisition\<close>

text \<open>
  C10. Calling \<^verbatim>\<open>handleFileSelect\<close> with no file (the file picker was cancelled)
  returns at once: the whole state, the notification, the acquired images and
  their previews included, is what it was, and no file read is started.
\<close>

theorem handleFileSelect_no_file:
  "handleFileSelect None isVerify s = s"
  by (simp add: handleFileSelect_def)

text \<open>
  C5. A file is validated in a fixed order before any encoding starts: a MIME
  type that does not begin with \<^verbatim>\<open>image/\<close> is refused first, whatever the size;
  then a size above 5 MiB is refused. Either refusal raises an error notification
  and starts no file read and no request; the images acquired before and their
  previews stay. A file that passes both checks starts the read and nothing else.
\<close>

theorem handleFileSelect_validation:
  "(\<not> startsWith (ftype f) (str ''image/'') \<longrightarrow>
      notification (handleFileSelect (Some f) isVerify s) =
        Some \<lparr> message = JStr (str ''Please select an image file''), ntype = SevError \<rparr>) \<and>
   (startsWith (ftype f) (str ''image/'') \<and> 5 * 1024 * 1024 < fsize f \<longrightarrow>
      notification (handleFileSelect (Some f) isVerify s) =
        Some \<lparr> message = JStr (str ''Image must be less than 5MB''), ntype = SevError \<rparr>) \<and>
   (\<not> startsWith (ftype f) (str ''image/'') \<or> 5 * 1024 * 1024 < fsize f \<longrightarrow>
      reads (handleFileSelect (Some f) isVerify s) = reads s \<and>
      requests (handleFileSelect (Some f) isVerify s) = requests s \<and>
      selectedFile (handleFileSelect (Some f) isVerify s) = selectedFile s \<and>
      previewUrl (handleFileSelect (Some f) isVerify s) = previewUrl s \<and>
      verifyImage (handleFileSelect (Some f) isVerify s) = verifyImage s \<and>
      verifyPreview (handleFileSelect (Some f) isVerify s) = verifyPreview s) \<and>
   (startsWith (ftype f) (str ''image/'') \<and> fsize f \<le> 5 * 1024 * 1024 \<longrightarrow>
      handleFileSelect (Some f) isVerify s = s\<lparr> reads := reads s @ [f] \<rparr>)"
  by (simp add: handleFileSelect_def showNotification_def)

text \<open>
  The theorem at a text file, at a PNG of 5 MiB + 1 bytes and at a small PNG, with
  an image already acquired in the enroll form.
\<close>

theorem handleFileSelect_validation_witness:
  "notification (handleFileSelect (Some example_txt) False enroll_ready) =
     Some \<lparr> message = JStr (str ''Please select an image file''), ntype = SevError \<rparr> \<and>
   selectedFile (handleFileSelect (Some example_txt) False enroll_ready) = Some example_png \<and>
   reads (handleFileSelect (Some example_txt) False enroll_ready) = [] \<and>
   notification (handleFileSelect (Some example_big) False enroll_ready) =
     Some \<lparr> message = JStr (str ''Image must be less than 5MB''), ntype = SevError \<rparr> \<and>
   selectedFile (handleFileSelect (Some example_big) False enroll_ready) = Some example_png \<and>
   reads (handleFileSelect (Some example_big) False enroll_ready) = [] \<and>
   reads (handleFileSelect (Some example_png) False enroll_ready) = [example_png]"
proof -
  have 1: "\<not> startsWith (ftype example_txt) (str ''image/'')"
    by (simp add: example_txt_def startsWith_def str_def)
  have 2: "startsWith (ftype example_big) (str ''image/'') \<and> 5 * 1024 * 1024 < fsize example_big"
    by (simp add: example_big_def startsWith_def str_def)
  have 3: "startsWith (ftype example_png) (str ''image/'') \<and> fsize example_png \<le> 5 * 1024 * 1024"
    by (simp add: example_png_def startsWith_def str_def)
  have 4: "selectedFile enroll_ready = Some example_png" "reads enroll_ready = []"
    by (simp_all add: enroll_ready_def initial_def)
  show ?thesis
    using 1 2 3 4
      handleFileSelect_validation [of example_txt False enroll_ready]
      handleFileSelect_validation [of example_big False enroll_ready]
      handleFileSelect_validation [of example_png False enroll_ready]
    by simp
qed

text \<open>
  C2, as the spec states it, fails: a verification result on display survives the
  switch of the acquisition mode, and survives the selection of a new image.
\<close>

theorem toggleCamera_result_counterexample:
  "verificationResult (toggleCamera with_result) \<noteq> JNull \<and>
   verificationResult
     (reader_onload example_png True (str ''data:image/png;base64,AAAA'') with_result) \<noteq> JNull"
  by (simp add: toggleCamera_def reader_onload_def with_result_def)

text \<open>
  C2, amended. Switching the acquisition mode, in either direction, flips the
  mode and clears the selected verify image and its preview; it leaves the
  verification result as it is. Selecting a new verification image (checking the
  file, then the reader's \<^verbatim>\<open>onload\<close>) replaces the verify image and its preview
  and leaves the verification result as it is.
\<close>

theorem toggleCamera_clears_image:
  "useCamera (toggleCamera s) = (\<not> useCamera s) \<and>
   verifyImage (toggleCamera s) = None \<and>
   verifyPreview (toggleCamera s) = None \<and>
   verificationResult (toggleCamera s) = verificationResult s \<and>
   verifyImage (reader_onload f True url s) = Some f \<and>
   verifyPreview (reader_onload f True url s) = Some url \<and>
   verificationResult (reader_onload f True url s) = verificationResult s \<and>
   verificationResult (handleFileSelect fo True s) = verificationResult s"
  by (simp add: toggleCamera_def reader_onload_def handleFileSelect_def showNotification_def
      split: option.split)

section \<open>Submit guards\<close>

text \<open>
  C1, as the spec states it, fails in both directions: with a user id of one space
  and an image acquired the enroll button is enabled although the trimmed id is
  empty, and with a request in flight the button is disabled although the id is
  \<^verbatim>\<open>alice\<close> and an image is acquired.
\<close>

theorem enroll_disabled_counterexample:
  "trim (userId enroll_blank) = [] \<and>
   selectedFile enroll_blank \<noteq> None \<and>
   \<not> enroll_disabled enroll_blank \<and>
   trim (userId (enroll_ready\<lparr> isLoading := True \<rparr>)) \<noteq> [] \<and>
   selectedFile (enroll_ready\<lparr> isLoading := True \<rparr>) \<noteq> None \<and>
   enroll_disabled (enroll_ready\<lparr> isLoading := True \<rparr>)"
  by (simp add: trim_space trim_alice enroll_disabled_def initial_def enroll_ready_def
      enroll_blank_def) (simp add: str_def)

text \<open>
  C1, amended. The enroll button is disabled if and only if a submission is
  loading, or the user id is the empty string, or no enrollment image has been
  acquired. A click on the button of the enroll tab starts an enroll submission
  if and only if no submission is loading, the trimmed user id is not empty and
  an image has been acquired; otherwise no request is sent. A submission that
  starts sets the loading flag and sends the preliminary \<^verbatim>\<open>POST /enroll\<close> with
  the user id as JSON; when that request is answered, it sends the multipart
  \<^verbatim>\<open>POST /enroll?user_id=\<close> with the encoded user id and the image if the user
  id can be URL-encoded, and otherwise raises the network error notification,
  resets the loading flag and sends nothing more. In particular, with a user id
  of whitespace only and an image acquired the button is enabled, and the click
  raises the error notification "Please enter a user ID" and sends nothing.
\<close>

theorem enroll_click_dispatch:
  "(enroll_disabled s \<longleftrightarrow> isLoading s \<or> userId s = [] \<or> selectedFile s = None) \<and>
   (snd (click_enroll s) \<noteq> None \<longleftrightarrow>
      activeTab s = EnrollTab \<and> \<not> isLoading s \<and> trim (userId s) \<noteq> [] \<and>
      selectedFile s \<noteq> None) \<and>
   (snd (click_enroll s) = None \<longrightarrow> requests (fst (click_enroll s)) = requests s) \<and>
   (activeTab s = EnrollTab \<and> \<not> isLoading s \<and> trim (userId s) \<noteq> [] \<and>
    selectedFile s = Some f \<longrightarrow>
      click_enroll s =
        (s\<lparr> isLoading := True,
            requests := requests s @
              [\<lparr> rmethod = POST, rurl = API_BASE_URL @ str ''/enroll'',
                  rheaders = [(str ''Content-Type'', str ''application/json'')],
                  rbody = JsonBody [(str ''user_id'', JStr (userId s))] \<rparr>] \<rparr>,
         Some (userId s, f))) \<and>
   (encodeURIComponent uid = Inr q \<longrightarrow>
      handleEnroll_resume1 uid g (Resolved r) s =
        (s\<lparr> requests := requests s @
              [\<lparr> rmethod = POST, rurl = API_BASE_URL @ str ''/enroll?user_id='' @ q,
                  rheaders = [], rbody = FormDataBody g \<rparr>] \<rparr>,
         True)) \<and>
   (encodeURIComponent uid = Inl e \<longrightarrow>
      handleEnroll_resume1 uid g (Resolved r) s =
        (s\<lparr> notification :=
              Some \<lparr> message = JStr (str ''Network error during enrollment''),
                     ntype = SevError \<rparr>,
            timers := timers s @ [now s + 5000], isLoading := False \<rparr>,
         False)) \<and>
   (activeTab s = EnrollTab \<and> \<not> isLoading s \<and> userId s \<noteq> [] \<and> trim (userId s) = [] \<and>
    selectedFile s \<noteq> None \<longrightarrow>
      \<not> enroll_disabled s \<and>
      click_enroll s = (showNotification (JStr (str ''Please enter a user ID'')) SevError s, None))"
proof -
  have a: "trim (userId s) \<noteq> [] \<Longrightarrow> userId s \<noteq> []"
    by (rule trim_nonempty)
  show ?thesis
    using a
    by (auto simp: click_enroll_def enroll_disabled_def handleEnroll_def fetch_def
        showNotification_def handleEnroll_resume1_def handleEnroll_catch_def
        handleEnroll_finally_def split: option.splits)
qed

text \<open>
  The theorem at a user id of one space, at the form filled in for \<^verbatim>\<open>alice\<close>
  (the click, then the answer to the first request), and at a user id that cannot
  be encoded.
\<close>

theorem enroll_click_dispatch_witness:
  "\<not> enroll_disabled enroll_blank \<and>
   click_enroll enroll_blank =
     (showNotification (JStr (str ''Please enter a user ID'')) SevError enroll_blank, None) \<and>
   requests (fst (click_enroll enroll_blank)) = [] \<and>
   click_enroll enroll_ready =
     (enroll_ready\<lparr> isLoading := True,
          requests :=
            [\<lparr> rmethod = POST, rurl = API_BASE_URL @ str ''/enroll'',
                rheaders = [(str ''Content-Type'', str ''application/json'')],
                rbody = JsonBody [(str ''user_id'', JStr (str ''alice''))] \<rparr>] \<rparr>,
      Some (str ''alice'', example_png)) \<and>
   requests (fst (handleEnroll_resume1 (str ''alice'') example_png (Resolved ok_response)
                    (fst (click_enroll enroll_ready)))) =
     [\<lparr> rmethod = POST, rurl = API_BASE_URL @ str ''/enroll'',
         rheaders = [(str ''Content-Type'', str ''application/json'')],
         rbody = JsonBody [(str ''user_id'', JStr (str ''alice''))] \<rparr>,
      \<lparr> rmethod = POST, rurl = API_BASE_URL @ str ''/enroll?user_id=alice'',
         rheaders = [], rbody = FormDataBody example_png \<rparr>] \<and>
   requests (fst (handleEnroll_resume1 [0xD800] example_png (Resolved ok_response)
                    (fst (click_enroll enroll_ready)))) =
     [\<lparr> rmethod = POST, rurl = API_BASE_URL @ str ''/enroll'',
         rheaders = [(str ''Content-Type'', str ''application/json'')],
         rbody = JsonBody [(str ''user_id'', JStr (str ''alice''))] \<rparr>]"
proof -
  have 1: "trim (userId enroll_blank) = []"
    by (simp add: enroll_blank_def trim_space)
  have 2: "userId enroll_blank \<noteq> []"
    by (simp add: enroll_blank_def str_def)
  have 3: "trim (userId enroll_ready) \<noteq> []"
    by (simp add: enroll_ready_def trim_alice) (simp add: str_def)
  have 4: "activeTab enroll_blank = EnrollTab" "\<not> isLoading enroll_blank"
    "selectedFile enroll_blank \<noteq> None" "requests enroll_blank = []"
    by (simp_all add: enroll_blank_def initial_def)
  have 5: "activeTab enroll_ready = EnrollTab" "\<not> isLoading enroll_ready"
    "selectedFile enroll_ready = Some example_png" "requests enroll_ready = []"
    "userId enroll_ready = str ''alice''"
    by (simp_all add: enroll_ready_def initial_def)
  have 6: "encodeURIComponent [0xD800] = Inl URIError"
    by (simp add: uri_unreserved_def)
  have 7: "str ''/enroll?user_id='' @ str ''alice'' = str ''/enroll?user_id=alice''"
    by (simp add: str_def)
  note b = enroll_click_dispatch [where s = enroll_blank and f = example_png]
  note c = enroll_click_dispatch [where s = enroll_ready and f = example_png]
  note d = enroll_click_dispatch [where s = "fst (click_enroll enroll_ready)"
      and uid = "str ''alice''" and q = "str ''alice''" and g = example_png and r = ok_response]
  note e = enroll_click_dispatch [where s = "fst (click_enroll enroll_ready)"
      and uid = "[0xD800]" and e = URIError and g = example_png and r = ok_response]
  have A: "\<not> enroll_disabled enroll_blank \<and>
     click_enroll enroll_blank =
       (showNotification (JStr (str ''Please enter a user ID'')) SevError enroll_blank, None)"
    using 1 2 4 b by blast
  have B: "requests (fst (click_enroll enroll_blank)) = []"
    using A 4 by (simp add: showNotification_def)
  have C: "click_enroll enroll_ready =
     (enroll_ready\<lparr> isLoading := True,
          requests :=
            [\<lparr> rmethod = POST, rurl = API_BASE_URL @ str ''/enroll'',
                rheaders = [(str ''Content-Type'', str ''application/json'')],
                rbody = JsonBody [(str ''user_id'', JStr (str ''alice''))] \<rparr>] \<rparr>,
      Some (str ''alice'', example_png))"
    using 3 5 c by simp
  have D: "requests (fst (handleEnroll_resume1 (str ''alice'') example_png (Resolved ok_response)
                    (fst (click_enroll enroll_ready)))) =
     [\<lparr> rmethod = POST, rurl = API_BASE_URL @ str ''/enroll'',
         rheaders = [(str ''Content-Type'', str ''application/json'')],
         rbody = JsonBody [(str ''user_id'', JStr (str ''alice''))] \<rparr>,
      \<lparr> rmethod = POST, rurl = API_BASE_URL @ str ''/enroll?user_id=alice'',
         rheaders = [], rbody = FormDataBody example_png \<rparr>]"
    using encode_alice d by (simp add: C 7)
  have E: "requests (fst (handleEnroll_resume1 [0xD800] example_png (Resolved ok_response)
                    (fst (click_enroll enroll_ready)))) =
     [\<lparr> rmethod = POST, rurl = API_BASE_URL @ str ''/enroll'',
         rheaders = [(str ''Content-Type'', str ''application/json'')],
         rbody = JsonBody [(str ''user_id'', JStr (str ''alice''))] \<rparr>]"
    using 6 e by (simp add: C)
  show ?thesis
    using A B C D E by blast
qed

text \<open>
  C4, as the spec states it, fails: with both forms filled in, a click on the
  enroll button puts a request in flight, and from then on the verify button is
  disabled and a click on it does nothing.
\<close>

theorem shared_loading_counterexample:
  "snd (click_enroll both_ready) \<noteq> None \<and>
   verify_disabled ((fst (click_enroll both_ready))\<lparr> activeTab := VerifyTab \<rparr>) \<and>
   click_verify ((fst (click_enroll both_ready))\<lparr> activeTab := VerifyTab \<rparr>) =
     ((fst (click_enroll both_ready))\<lparr> activeTab := VerifyTab \<rparr>, None)"
  by (simp add: click_enroll_def click_verify_def enroll_disabled_def verify_disabled_def
      handleEnroll_def both_ready_def enroll_ready_def initial_def trim_alice fetch_def)
    (simp add: str_def)

text \<open>
  C4, amended. The enroll form and the verify form share one loading flag. A
  submit that is accepted on either form sets it, and it stays set while the
  handler waits for its requests. While it is set, whatever tab is shown, both
  submit buttons are disabled and a click on either is rejected: it changes
  nothing and sends nothing. So a re-entrant submit from the same form is
  rejected, and so is a submit from the other form.
\<close>

theorem submit_guard:
  "(snd (click_enroll s) \<noteq> None \<longrightarrow> isLoading (fst (click_enroll s))) \<and>
   (snd (click_verify s) \<noteq> None \<longrightarrow> isLoading (fst (click_verify s))) \<and>
   (isLoading s \<longrightarrow>
      enroll_disabled (s\<lparr> activeTab := t \<rparr>) \<and> verify_disabled (s\<lparr> activeTab := t \<rparr>) \<and>
      click_enroll (s\<lparr> activeTab := t \<rparr>) = (s\<lparr> activeTab := t \<rparr>, None) \<and>
      click_verify (s\<lparr> activeTab := t \<rparr>) = (s\<lparr> activeTab := t \<rparr>, None)) \<and>
   (snd (handleEnroll_resume1 uid f out s) \<longrightarrow>
      isLoading (fst (handleEnroll_resume1 uid f out s)) = isLoading s) \<and>
   (snd (handleVerify_resume1 ev tok rd s) \<longrightarrow>
      isLoading (fst (handleVerify_resume1 ev tok rd s)) = isLoading s)"
  by (auto simp: click_enroll_def click_verify_def enroll_disabled_def verify_disabled_def
      handleEnroll_def handleVerify_def handleEnroll_resume1_def handleVerify_resume1_def
      fetch_def split: option.splits fetch_outcome.splits sum.splits)

text \<open>
  The theorem at the state with both forms filled in: the enroll click is
  accepted, and then neither button of either tab accepts a click.
\<close>

theorem submit_guard_witness:
  "isLoading (fst (click_enroll both_ready)) \<and>
   click_enroll ((fst (click_enroll both_ready))\<lparr> activeTab := EnrollTab \<rparr>) =
     ((fst (click_enroll both_ready))\<lparr> activeTab := EnrollTab \<rparr>, None) \<and>
   click_verify ((fst (click_enroll both_ready))\<lparr> activeTab := VerifyTab \<rparr>) =
     ((fst (click_enroll both_ready))\<lparr> activeTab := VerifyTab \<rparr>, None)"
proof -
  have 1: "snd (click_enroll both_ready) \<noteq> None"
    by (simp add: click_enroll_def enroll_disabled_def handleEnroll_def both_ready_def
        enroll_ready_def initial_def trim_alice) (simp add: str_def)
  have 2: "isLoading (fst (click_enroll both_ready))"
    using 1 submit_guard [of both_ready] by simp
  show ?thesis
    using 2 submit_guard [of "fst (click_enroll both_ready)" EnrollTab]
      submit_guard [of "fst (click_enroll both_ready)" VerifyTab]
    by simp
qed

section \<open>Notification channel\<close>

text \<open>
  C3, as the spec states it, fails: a first notification is raised at time 0 and
  a second one at 3000 ms; at 5000 ms, 2000 ms after its creation, the second
  notification is gone.
\<close>

theorem notification_expiry_counterexample:
  "now (advance 3000 (showNotification (JStr (str ''first'')) SevInfo initial)) = 3000 \<and>
   notification
     (advance 2000
        (showNotification (JStr (str ''second'')) SevError
           (advance 3000 (showNotification (JStr (str ''first'')) SevInfo initial)))) = None"
  by (simp add: advance_def showNotification_def initial_def)

text \<open>
  C3, amended. The channel holds at most one notification, and raising one fully
  supersedes the one before. Each notification schedules its own expiry 5 seconds
  after its creation and leaves the pending expiries of earlier notifications in
  place: none is reset or cancelled, and an expiry that fires clears whatever
  notification is shown. So a notification stays visible until the earliest
  pending expiry, its own or an earlier one: for the full 5 seconds exactly when
  no earlier expiry falls within them, and never beyond them.
\<close>

theorem showNotification_supersedes:
  "notification (showNotification m t s) = Some \<lparr> message = m, ntype = t \<rparr> \<and>
   timers (showNotification m t s) = timers s @ [now s + 5000] \<and>
   notification (advance d (showNotification m t s)) =
     (if d < 5000 \<and> list_all (\<lambda>due. now s + d < due) (timers s)
      then Some \<lparr> message = m, ntype = t \<rparr> else None) \<and>
   timers (advance d (showNotification m t s)) =
     filter (\<lambda>due. now s + d < due) (timers s @ [now s + 5000])"
proof (intro conjI)
  show "notification (showNotification m t s) = Some \<lparr> message = m, ntype = t \<rparr>"
    by (simp add: showNotification_def)
  show "timers (showNotification m t s) = timers s @ [now s + 5000]"
    by (simp add: showNotification_def)
  have f: "filter (\<lambda>due. due \<le> now s + d) (timers s @ [now s + 5000]) = [] \<longleftrightarrow>
      d < 5000 \<and> list_all (\<lambda>due. now s + d < due) (timers s)"
    by (auto simp: filter_empty_conv list_all_iff not_le)
  show "notification (advance d (showNotification m t s)) =
     (if d < 5000 \<and> list_all (\<lambda>due. now s + d < due) (timers s)
      then Some \<lparr> message = m, ntype = t \<rparr> else None)"
  proof -
    have g: "notification (advance d (showNotification m t s)) =
        (if filter (\<lambda>due. due \<le> now s + d) (timers s @ [now s + 5000]) = []
         then Some \<lparr> message = m, ntype = t \<rparr> else None)"
      by (simp add: advance_def showNotification_def Let_def)
    show ?thesis
      unfolding g f by (rule refl)
  qed
  show "timers (advance d (showNotification m t s)) =
     filter (\<lambda>due. now s + d < due) (timers s @ [now s + 5000])"
    by (simp add: advance_def showNotification_def Let_def)
qed

text \<open>
  The theorem at a second notification raised 3000 ms after a first one: the
  second supersedes the first, both expiries are pending, the second is still
  shown 1999 ms later and is cleared 2000 ms later, when the first expiry fires.
\<close>

theorem showNotification_supersedes_witness:
  "timers (advance 3000 (showNotification (JStr (str ''first'')) SevInfo initial)) = [5000] \<and>
   notification
     (showNotification (JStr (str ''second'')) SevError
        (advance 3000 (showNotification (JStr (str ''first'')) SevInfo initial))) =
     Some \<lparr> message = JStr (str ''second''), ntype = SevError \<rparr> \<and>
   timers
     (showNotification (JStr (str ''second'')) SevError
        (advance 3000 (showNotification (JStr (str ''first'')) SevInfo initial))) = [5000, 8000] \<and>
   notification
     (advance 1999
        (showNotification (JStr (str ''second'')) SevError
           (advance 3000 (showNotification (JStr (str ''first'')) SevInfo initial)))) =
     Some \<lparr> message = JStr (str ''second''), ntype = SevError \<rparr> \<and>
   notification
     (advance 2000
        (showNotification (JStr (str ''second'')) SevError
           (advance 3000 (showNotification (JStr (str ''first'')) SevInfo initial)))) = None"
proof -
  have 0: "timers initial = []" "now initial = 0"
    by (simp_all add: initial_def)
  note a = showNotification_supersedes [of "JStr (str ''first'')" SevInfo initial 3000]
  have 1: "timers (advance 3000 (showNotification (JStr (str ''first'')) SevInfo initial)) = [5000]"
    using a 0 by simp
  have 2: "now (advance 3000 (showNotification (JStr (str ''first'')) SevInfo initial)) = 3000"
    by (simp add: advance_def showNotification_def Let_def 0)
  note b = showNotification_supersedes [of "JStr (str ''second'')" SevError
      "advance 3000 (showNotification (JStr (str ''first'')) SevInfo initial)"]
  show ?thesis
    using 1 b [of 1999] b [of 2000] by (simp add: 2)
qed

section \<open>Request dispatcher\<close>

text \<open>
  C6. A successful enroll (both requests answered, the second with a 2xx status)
  sends exactly one more \<^verbatim>\<open>GET /users\<close> and exactly one more \<^verbatim>\<open>GET /health\<close>
  and resets the user id, the selected image and the preview of the enroll form.
  A successful delete (confirmed, answered with a 2xx status) sends exactly one
  more \<^verbatim>\<open>GET /users\<close> and exactly one more \<^verbatim>\<open>GET /health\<close>.
\<close>

theorem mutation_refreshes:
  "(trim (userId s) \<noteq> [] \<and> selectedFile s = Some f \<and>
    encodeURIComponent (userId s) = Inr q \<and> ok r2 \<longrightarrow>
      sent GET (API_BASE_URL @ str ''/users'')
        (requests (handleEnroll_run (Resolved r1) (Resolved r2) s)) =
        Suc (sent GET (API_BASE_URL @ str ''/users'') (requests s)) \<and>
      sent GET (API_BASE_URL @ str ''/health'')
        (requests (handleEnroll_run (Resolved r1) (Resolved r2) s)) =
        Suc (sent GET (API_BASE_URL @ str ''/health'') (requests s)) \<and>
      userId (handleEnroll_run (Resolved r1) (Resolved r2) s) = [] \<and>
      selectedFile (handleEnroll_run (Resolved r1) (Resolved r2) s) = None \<and>
      previewUrl (handleEnroll_run (Resolved r1) (Resolved r2) s) = None) \<and>
   (encodeURIComponent u = Inr q' \<and> ok r \<longrightarrow>
      sent GET (API_BASE_URL @ str ''/users'')
        (requests (deleteUser_run True u (Resolved r) s)) =
        Suc (sent GET (API_BASE_URL @ str ''/users'') (requests s)) \<and>
      sent GET (API_BASE_URL @ str ''/health'')
        (requests (deleteUser_run True u (Resolved r) s)) =
        Suc (sent GET (API_BASE_URL @ str ''/health'') (requests s)))"
proof (intro conjI impI)
  assume a: "trim (userId s) \<noteq> [] \<and> selectedFile s = Some f \<and>
    encodeURIComponent (userId s) = Inr q \<and> ok r2"
  then have rq: "requests (handleEnroll_run (Resolved r1) (Resolved r2) s) =
     requests s @
       [\<lparr> rmethod = POST, rurl = API_BASE_URL @ str ''/enroll'',
           rheaders = [(str ''Content-Type'', str ''application/json'')],
           rbody = JsonBody [(str ''user_id'', JStr (userId s))] \<rparr>,
        \<lparr> rmethod = POST, rurl = API_BASE_URL @ str ''/enroll?user_id='' @ q,
           rheaders = [], rbody = FormDataBody f \<rparr>,
        \<lparr> rmethod = GET, rurl = API_BASE_URL @ str ''/users'', rheaders = [], rbody = NoBody \<rparr>,
        \<lparr> rmethod = GET, rurl = API_BASE_URL @ str ''/health'', rheaders = [], rbody = NoBody \<rparr>]"
    by (simp add: enroll_success_requests)
  show "sent GET (API_BASE_URL @ str ''/users'')
        (requests (handleEnroll_run (Resolved r1) (Resolved r2) s)) =
        Suc (sent GET (API_BASE_URL @ str ''/users'') (requests s))"
    by (simp add: rq sent_append) (simp add: sent_def users_health_urls)
  show "sent GET (API_BASE_URL @ str ''/health'')
        (requests (handleEnroll_run (Resolved r1) (Resolved r2) s)) =
        Suc (sent GET (API_BASE_URL @ str ''/health'') (requests s))"
    by (simp add: rq sent_append) (simp add: sent_def users_health_urls)
  from a show "userId (handleEnroll_run (Resolved r1) (Resolved r2) s) = []"
    "selectedFile (handleEnroll_run (Resolved r1) (Resolved r2) s) = None"
    "previewUrl (handleEnroll_run (Resolved r1) (Resolved r2) s) = None"
    using enroll_success_form [of s f q r2 r1] by simp_all
next
  assume b: "encodeURIComponent u = Inr q' \<and> ok r"
  then have rq: "requests (deleteUser_run True u (Resolved r) s) =
     requests s @
       [\<lparr> rmethod = DELETE, rurl = API_BASE_URL @ str ''/enroll/'' @ q',
           rheaders = [], rbody = NoBody \<rparr>,
        \<lparr> rmethod = GET, rurl = API_BASE_URL @ str ''/users'', rheaders = [], rbody = NoBody \<rparr>,
        \<lparr> rmethod = GET, rurl = API_BASE_URL @ str ''/health'', rheaders = [], rbody = NoBody \<rparr>]"
    by (simp add: delete_success_requests)
  show "sent GET (API_BASE_URL @ str ''/users'')
        (requests (deleteUser_run True u (Resolved r) s)) =
        Suc (sent GET (API_BASE_URL @ str ''/users'') (requests s))"
    by (simp add: rq sent_append) (simp add: sent_def users_health_urls)
  show "sent GET (API_BASE_URL @ str ''/health'')
        (requests (deleteUser_run True u (Resolved r) s)) =
        Suc (sent GET (API_BASE_URL @ str ''/health'') (requests s))"
    by (simp add: rq sent_append) (simp add: sent_def users_health_urls)
qed

text \<open>
  The theorem at the enrollment of \<^verbatim>\<open>alice\<close> and at the deletion of \<^verbatim>\<open>alice\<close>,
  each from a state that has sent no request yet.
\<close>

theorem mutation_refreshes_witness:
  "sent GET (API_BASE_URL @ str ''/users'')
     (requests (handleEnroll_run (Resolved ok_response) (Resolved ok_response) enroll_ready)) = 1 \<and>
   sent GET (API_BASE_URL @ str ''/health'')
     (requests (handleEnroll_run (Resolved ok_response) (Resolved ok_response) enroll_ready)) = 1 \<and>
   userId (handleEnroll_run (Resolved ok_response) (Resolved ok_response) enroll_ready) = [] \<and>
   selectedFile (handleEnroll_run (Resolved ok_response) (Resolved ok_response) enroll_ready) = None \<and>
   previewUrl (handleEnroll_run (Resolved ok_response) (Resolved ok_response) enroll_ready) = None \<and>
   sent GET (API_BASE_URL @ str ''/users'')
     (requests (deleteUser_run True (str ''alice'') (Resolved ok_response) initial)) = 1 \<and>
   sent GET (API_BASE_URL @ str ''/health'')
     (requests (deleteUser_run True (str ''alice'') (Resolved ok_response) initial)) = 1"
proof -
  have 1: "trim (userId enroll_ready) \<noteq> []"
    by (simp add: enroll_ready_def trim_alice) (simp add: str_def)
  have 2: "selectedFile enroll_ready = Some example_png"
    by (simp add: enroll_ready_def)
  have 3: "encodeURIComponent (userId enroll_ready) = Inr (str ''alice'')"
    by (simp add: enroll_ready_def encode_alice)
  have 4: "ok ok_response"
    by (simp add: ok_response_def)
  have 5: "requests enroll_ready = []" "requests initial = []"
    by (simp_all add: enroll_ready_def initial_def)
  show ?thesis
    using 1 2 3 4 encode_alice
      mutation_refreshes [where s = enroll_ready and f = example_png and q = "str ''alice''"
        and ?r1.0 = ok_response and ?r2.0 = ok_response and u = "str ''alice''"
        and q' = "str ''alice''" and r = ok_response]
      mutation_refreshes [where s = initial and f = example_png and q = "str ''alice''"
        and ?r1.0 = ok_response and ?r2.0 = ok_response and u = "str ''alice''"
        and q' = "str ''alice''" and r = ok_response]
    by (simp add: 5 sent_def)
qed

text \<open>
  C7, as the spec states it, fails: for an identifier that is a lone surrogate
  code unit, which \<^verbatim>\<open>encodeURIComponent\<close> refuses, the confirmed deletion sends
  no \<^verbatim>\<open>DELETE\<close> request; it raises the error notification instead.
\<close>

theorem deleteUser_surrogate_counterexample:
  "deleteUser_run True [0xD800] (Resolved ok_response) initial = deleteUser_catch initial \<and>
   sent_method DELETE (requests (deleteUser_run True [0xD800] (Resolved ok_response) initial)) = 0"
  by (simp add: deleteUser_run_def deleteUser_def uri_unreserved_def deleteUser_catch_def
      showNotification_def initial_def sent_method_def)

text \<open>
  C7, amended. \<^verbatim>\<open>deleteUser\<close> never sends the \<^verbatim>\<open>DELETE\<close> request without the
  user accepting the confirmation prompt: when the prompt is declined, nothing is
  sent and the state is unchanged. When it is accepted and the identifier can be
  URL-encoded, exactly one \<^verbatim>\<open>DELETE\<close> request is sent, to \<^verbatim>\<open>/enroll/\<close> followed
  by the encoded identifier, whatever the service answers. When it is accepted and the
  identifier cannot be URL-encoded, no request is sent and an error notification
  is raised.
\<close>

theorem deleteUser_confirmation:
  "deleteUser False u s = (s, False) \<and>
   deleteUser_run False u out s = s \<and>
   (encodeURIComponent u = Inr q \<longrightarrow>
      deleteUser True u s =
        (s\<lparr> requests := requests s @
             [\<lparr> rmethod = DELETE, rurl = API_BASE_URL @ str ''/enroll/'' @ q,
                 rheaders = [], rbody = NoBody \<rparr>] \<rparr>, True) \<and>
      sent_method DELETE (requests (deleteUser_run True u out s)) =
        Suc (sent_method DELETE (requests s)) \<and>
      sent DELETE (API_BASE_URL @ str ''/enroll/'' @ q)
          (requests (deleteUser_run True u out s)) =
        Suc (sent DELETE (API_BASE_URL @ str ''/enroll/'' @ q) (requests s))) \<and>
   (encodeURIComponent u = Inl e \<longrightarrow>
      deleteUser_run True u out s =
        showNotification (JStr (str ''Network error during deletion'')) SevError s \<and>
      requests (deleteUser_run True u out s) = requests s)"
proof (intro conjI impI)
  show "deleteUser False u s = (s, False)"
    by (simp add: deleteUser_def)
  show "deleteUser_run False u out s = s"
    by (simp add: deleteUser_run_def deleteUser_def)
next
  assume a: "encodeURIComponent u = Inr q"
  then show "deleteUser True u s =
        (s\<lparr> requests := requests s @
             [\<lparr> rmethod = DELETE, rurl = API_BASE_URL @ str ''/enroll/'' @ q,
                 rheaders = [], rbody = NoBody \<rparr>] \<rparr>, True)"
    by (simp add: deleteUser_def fetch_def)
  from a show "sent_method DELETE (requests (deleteUser_run True u out s)) =
        Suc (sent_method DELETE (requests s))"
    by (simp add: delete_run_confirmed)
  from a show "sent DELETE (API_BASE_URL @ str ''/enroll/'' @ q)
          (requests (deleteUser_run True u out s)) =
        Suc (sent DELETE (API_BASE_URL @ str ''/enroll/'' @ q) (requests s))"
    by (simp add: delete_run_confirmed)
next
  assume b: "encodeURIComponent u = Inl e"
  then show "deleteUser_run True u out s =
        showNotification (JStr (str ''Network error during deletion'')) SevError s"
    by (simp add: deleteUser_run_def deleteUser_def deleteUser_catch_def)
  from b show "requests (deleteUser_run True u out s) = requests s"
    by (simp add: deleteUser_run_def deleteUser_def deleteUser_catch_def showNotification_def)
qed

text \<open>
  The theorem at the deletion of \<^verbatim>\<open>alice\<close>, declined and accepted, and at an
  identifier that cannot be encoded.
\<close>

theorem deleteUser_confirmation_witness:
  "requests (deleteUser_run False (str ''alice'') (Resolved ok_response) initial) = [] \<and>
   deleteUser True (str ''alice'') initial =
     (initial\<lparr> requests :=
         [\<lparr> rmethod = DELETE, rurl = API_BASE_URL @ str ''/enroll/alice'',
             rheaders = [], rbody = NoBody \<rparr>] \<rparr>, True) \<and>
   sent_method DELETE
     (requests (deleteUser_run True (str ''alice'') (Resolved ok_response) initial)) = 1 \<and>
   requests (deleteUser_run True [0xD800] (Resolved ok_response) initial) = []"
proof -
  have 1: "encodeURIComponent [0xD800] = Inl URIError"
    by (simp add: uri_unreserved_def)
  have 2: "requests initial = []"
    by (simp add: initial_def)
  have 3: "str ''/enroll/'' @ str ''alice'' = str ''/enroll/alice''"
    by (simp add: str_def)
  show ?thesis
    using 1 2 3 encode_alice
      deleteUser_confirmation [of "str ''alice''" initial "Resolved ok_response" "str ''alice''" URIError]
      deleteUser_confirmation [of "[0xD800]" initial "Resolved ok_response" "str ''alice''" URIError]
    by (simp add: sent_method_def showNotification_def)
qed

section \<open>Failures\<close>

text \<open>
  C9, as the spec states it, fails: when the request of \<^verbatim>\<open>fetchHealth\<close> or of
  \<^verbatim>\<open>fetchUsers\<close> is rejected, no notification is raised.
\<close>

theorem read_failure_counterexample:
  "notification (fetchHealth_resume Rejected (fetchHealth initial)) = None \<and>
   notification (fetchUsers_resume Rejected (fetchUsers initial)) = None"
  by (simp add: fetchHealth_resume_def fetchHealth_def fetchUsers_resume_def fetchUsers_def
      fetch_def console_error_def initial_def)

text \<open>
  C9, amended. A transport failure of any remote operation is caught where the
  request was made and goes no further. For enroll (either request), verify and
  delete it becomes an error notification "Network error during ..."; enroll and
  verify also reset the loading flag, and nothing else of the state changes, so
  that a form whose inputs are valid accepts a new submit. For listUsers and
  fetchHealth it is written to the console only: no notification is raised and
  the state shown stays as it was.
\<close>

theorem transport_failures:
  "handleEnroll_resume1 uid f Rejected s =
     (s\<lparr> notification :=
            Some \<lparr> message = JStr (str ''Network error during enrollment''), ntype = SevError \<rparr>,
          timers := timers s @ [now s + 5000], isLoading := False \<rparr>, False) \<and>
   handleEnroll_resume2 Rejected s =
     s\<lparr> notification :=
           Some \<lparr> message = JStr (str ''Network error during enrollment''), ntype = SevError \<rparr>,
         timers := timers s @ [now s + 5000], isLoading := False \<rparr> \<and>
   handleVerify_resume2 Rejected s =
     s\<lparr> notification :=
           Some \<lparr> message = JStr (str ''Network error during verification''), ntype = SevError \<rparr>,
         timers := timers s @ [now s + 5000], isLoading := False \<rparr> \<and>
   deleteUser_resume Rejected s =
     s\<lparr> notification :=
           Some \<lparr> message = JStr (str ''Network error during deletion''), ntype = SevError \<rparr>,
         timers := timers s @ [now s + 5000] \<rparr> \<and>
   fetchUsers_resume Rejected s =
     s\<lparr> console := console s @ [(str ''Failed to fetch users:'', FetchFailed)] \<rparr> \<and>
   fetchHealth_resume Rejected s =
     s\<lparr> console := console s @ [(str ''Failed to fetch health:'', FetchFailed)] \<rparr> \<and>
   (activeTab s = EnrollTab \<and> trim (userId s) \<noteq> [] \<and> selectedFile s \<noteq> None \<longrightarrow>
      snd (click_enroll (handleEnroll_resume2 Rejected s)) \<noteq> None) \<and>
   (activeTab s = VerifyTab \<and> trim (token s) \<noteq> [] \<and> verifyImage s \<noteq> None \<longrightarrow>
      snd (click_verify (handleVerify_resume2 Rejected s)) \<noteq> None)"
proof -
  have a: "trim (userId s) \<noteq> [] \<Longrightarrow> userId s \<noteq> []"
    by (rule trim_nonempty)
  have b: "trim (token s) \<noteq> [] \<Longrightarrow> token s \<noteq> []"
    by (rule trim_nonempty)
  show ?thesis
    using a b
    by (auto simp: handleEnroll_resume1_def handleEnroll_resume2_def handleEnroll_catch_def
        handleEnroll_finally_def handleVerify_resume2_def handleVerify_catch_def
        handleVerify_finally_def deleteUser_resume_def deleteUser_catch_def
        fetchUsers_resume_def fetchHealth_resume_def console_error_def showNotification_def
        click_enroll_def click_verify_def enroll_disabled_def verify_disabled_def
        handleEnroll_def handleVerify_def)
qed


text \<open>
  The theorem at the two filled-in forms, each with its request in flight: after
  the failure the submit is accepted again.
\<close>

theorem transport_failures_witness:
  "snd (click_enroll (handleEnroll_resume2 Rejected (enroll_ready\<lparr> isLoading := True \<rparr>))) \<noteq> None \<and>
   snd (click_verify
          (handleVerify_resume2 Rejected
             (both_ready\<lparr> activeTab := VerifyTab, isLoading := True \<rparr>))) \<noteq> None"
proof -
  have 1: "activeTab (enroll_ready\<lparr> isLoading := True \<rparr>) = EnrollTab"
    "trim (userId (enroll_ready\<lparr> isLoading := True \<rparr>)) \<noteq> []"
    "selectedFile (enroll_ready\<lparr> isLoading := True \<rparr>) \<noteq> None"
    by (simp_all add: enroll_ready_def initial_def trim_alice) (simp add: str_def)
  have 2: "activeTab (both_ready\<lparr> activeTab := VerifyTab, isLoading := True \<rparr>) = VerifyTab"
    "trim (token (both_ready\<lparr> activeTab := VerifyTab, isLoading := True \<rparr>)) \<noteq> []"
    "verifyImage (both_ready\<lparr> activeTab := VerifyTab, isLoading := True \<rparr>) \<noteq> None"
    by (simp_all add: both_ready_def trim_jwt) (simp add: str_def)
  have 3: "snd (click_enroll (handleEnroll_resume2 Rejected (enroll_ready\<lparr> isLoading := True \<rparr>)))
      \<noteq> None"
    using 1
      transport_failures [where s = "enroll_ready\<lparr> isLoading := True \<rparr>",
        THEN conjunct2, THEN conjunct2, THEN conjunct2, THEN conjunct2, THEN conjunct2,
        THEN conjunct2, THEN conjunct1]
    by blast
  have 4: "snd (click_verify
          (handleVerify_resume2 Rejected
             (both_ready\<lparr> activeTab := VerifyTab, isLoading := True \<rparr>))) \<noteq> None"
    using 2
      transport_failures [where s = "both_ready\<lparr> activeTab := VerifyTab, isLoading := True \<rparr>",
        THEN conjunct2, THEN conjunct2, THEN conjunct2, THEN conjunct2, THEN conjunct2,
        THEN conjunct2, THEN conjunct2]
    by blast
  show ?thesis
    using 3 4 by (rule conjI)
qed

section \<open>Verification outcome\<close>

text \<open>
  C8. \<^verbatim>\<open>handleVerify\<close> parses the body of the response whatever its status. A
  well-formed response with \<^verbatim>\<open>success: false\<close> is a normal outcome and not an
  error path: it is stored as the verification result, the error notification
  "Verification failed" is raised (not the network error of the catch block), and
  the loading flag is reset. For every confidence \<open>c\<close> in [0, 1] the render does
  not throw: the panel has the error style and shows the confidence as a
  percentage with one decimal, namely the double \<open>v\<close> that is the product of the
  confidence and 100 (within \<open>2\<^sup>-\<^sup>4\<^sup>7\<close> of \<open>100 c\<close>), rounded to the nearest tenth
  \<open>n / 10\<close>, the upper one on a tie, so that the number shown differs from
  \<open>100 c\<close> by at most \<open>0.05 + 2\<^sup>-\<^sup>4\<^sup>7\<close>. The response with confidence 0.12
  shows "12.0%".
\<close>

theorem verify_failure_outcome:
  "handleVerify_resume2 (Resolved \<lparr> ok = b, json_body = Some (failure_body u ev c m) \<rparr>) s =
     s\<lparr> verificationResult := failure_body u ev c m,
        notification :=
          Some \<lparr> message = JStr (str ''Verification failed''), ntype = SevError \<rparr>,
        timers := timers s @ [now s + 5000], isLoading := False \<rparr> \<and>
   (0 \<le> c \<and> c \<le> 1 \<longrightarrow>
      (\<exists>v n. to_double False (c * 100) = Finite False v \<and>
           \<bar>v - c * 100\<bar> \<le> 1 / 2 ^ 47 \<and>
           n = nat \<lfloor>v * 10 + 1 / 2\<rfloor> \<and>
           \<bar>of_nat n / 10 - c * 100\<bar> \<le> 1 / 20 + 1 / 2 ^ 47 \<and>
           render_result conv big
             ((handleVerify_resume2
                 (Resolved \<lparr> ok = b, json_body = Some (failure_body u ev c m) \<rparr>) s)
              \<lparr> activeTab := VerifyTab \<rparr>) =
             Inr (Some \<lparr> pstyle = RedPanel, heading = str ''Verification Failed'',
                         user_id_child = Some (JStr u), event_child = Some (JStr ev),
                         confidence_text =
                           digits (n div 10) @ str ''.'' @ digits (n mod 10) @ str ''%'',
                         message_child = Some (JStr m) \<rparr>))) \<and>
   render_result conv big
     ((handleVerify_resume2 (Resolved \<lparr> ok = b, json_body = Some no_match \<rparr>) s)
      \<lparr> activeTab := VerifyTab \<rparr>) =
     Inr (Some \<lparr> pstyle = RedPanel, heading = str ''Verification Failed'',
                 user_id_child = Some (JStr (str ''bob'')),
                 event_child = Some (JStr (str ''login-event'')),
                 confidence_text = str ''12.0%'',
                 message_child = Some (JStr (str ''no match'')) \<rparr>)"
  by (intro conjI impI verify_failure_state verify_failure_render verify_no_match_render)
    simp_all

text \<open>
  The theorem at a response with status not 2xx and confidence 0.5, received
  while the verify request is in flight: the panel shows "50.0%".
\<close>

theorem verify_failure_outcome_witness:
  "verificationResult
     (handleVerify_resume2
        (Resolved \<lparr> ok = False,
           json_body = Some (failure_body (str ''bob'') (str ''login-event'') (1 / 2)
             (str ''no match'')) \<rparr>)
        (both_ready\<lparr> isLoading := True \<rparr>)) =
     failure_body (str ''bob'') (str ''login-event'') (1 / 2) (str ''no match'') \<and>
   render_result (\<lambda>v. NaN) (\<lambda>q. [])
      ((handleVerify_resume2
          (Resolved \<lparr> ok = False,
             json_body = Some (failure_body (str ''bob'') (str ''login-event'') (1 / 2)
               (str ''no match'')) \<rparr>)
          (both_ready\<lparr> isLoading := True \<rparr>))\<lparr> activeTab := VerifyTab \<rparr>) =
      Inr (Some \<lparr> pstyle = RedPanel, heading = str ''Verification Failed'',
                  user_id_child = Some (JStr (str ''bob'')),
                  event_child = Some (JStr (str ''login-event'')),
                  confidence_text = str ''50.0%'',
                  message_child = Some (JStr (str ''no match'')) \<rparr>)"
proof -
  note w = verify_failure_outcome [where b = False and u = "str ''bob''"
        and ev = "str ''login-event''" and c = "1 / 2"
        and m = "str ''no match''" and s = "both_ready\<lparr> isLoading := True \<rparr>"
        and conv = "\<lambda>v. NaN" and big = "\<lambda>q. []"]
  have 1: "(0 :: rat) \<le> 1 / 2 \<and> (1 / 2 :: rat) \<le> 1"
    by simp
  have 2: "verificationResult
     (handleVerify_resume2
        (Resolved \<lparr> ok = False,
           json_body = Some (failure_body (str ''bob'') (str ''login-event'') (1 / 2)
             (str ''no match'')) \<rparr>)
        (both_ready\<lparr> isLoading := True \<rparr>)) =
     failure_body (str ''bob'') (str ''login-event'') (1 / 2) (str ''no match'')"
    by (subst w [THEN conjunct1]) simp
  obtain v n where v: "to_double False (1 / 2 * 100) = Finite False v"
    and n: "n = nat \<lfloor>v * 10 + 1 / 2\<rfloor>"
    and r: "render_result (\<lambda>v. NaN) (\<lambda>q. [])
      ((handleVerify_resume2
          (Resolved \<lparr> ok = False,
             json_body = Some (failure_body (str ''bob'') (str ''login-event'') (1 / 2)
               (str ''no match'')) \<rparr>)
          (both_ready\<lparr> isLoading := True \<rparr>))\<lparr> activeTab := VerifyTab \<rparr>) =
      Inr (Some \<lparr> pstyle = RedPanel, heading = str ''Verification Failed'',
                  user_id_child = Some (JStr (str ''bob'')),
                  event_child = Some (JStr (str ''login-event'')),
                  confidence_text =
                    digits (n div 10) @ str ''.'' @ digits (n mod 10) @ str ''%'',
                  message_child = Some (JStr (str ''no match'')) \<rparr>)"
    using w [THEN conjunct2, THEN conjunct1, THEN mp, OF 1] by blast
  have "(1 / 2 * 100 :: rat) = 50" by simp
  with v double_50 have v50: "v = 50" by simp
  have n500: "n = 500" unfolding n v50 by simp
  have t: "digits (n div 10) @ str ''.'' @ digits (n mod 10) @ str ''%'' = str ''50.0%''"
    unfolding n500 by (simp add: digits_50) (simp add: str_def)
  show ?thesis
    using 2 r unfolding t by (rule conjI)
qed

end
